theory Spec2Isabelle
  imports Main "HOL-Library.Char_ord" "HOL-Library.List_Lexorder" "HOL-Library.Option_ord"
begin

section \<open>Python values, exceptions and text\<close>

text \<open>
  The ingestion program (\<^verbatim>\<open>download_feeds.py\<close>) and the query tool
  (\<^verbatim>\<open>feedcli.py\<close>) are embedded as functions over an explicit world: the
  database connection, the file system, the network and the clock.  Every exception the
  Python can raise is a value of \<open>error\<close>; a function that can raise returns
  \<open>error + 'a\<close>, and a function with effects also returns the world as it was
  when it returned or raised.

  Text is a list of characters with code points U+0000 .. U+00FF; the character
  classes below are those of Python's \<^verbatim>\<open>str\<close> methods on that range.
\<close>

datatype error =
    FileNotFoundError | IsADirectoryError | NotADirectoryError | FileExistsError
  | ConnectionError | HTTPError | ChunkedEncodingError | ExpatError
  | KeyError | TypeError | AttributeError | ValueError | ZeroDivisionError
  | ProgrammingError | OperationalError

type_synonym bytes = "char list"

text \<open>What \<^verbatim>\<open>xmltodict.parse\<close> builds: \<^verbatim>\<open>None\<close>, strings,
  dictionaries (in insertion order) and lists.\<close>

datatype pyval = PNone | PStr string | PDict "(string \<times> pyval) list" | PList "pyval list"

definition isdigit :: "char \<Rightarrow> bool" where
  "isdigit c = (48 \<le> (of_char c :: nat) \<and> (of_char c :: nat) \<le> 57)"

definition isspace :: "char \<Rightarrow> bool" where
  "isspace c = (let n = (of_char c :: nat) in
     (9 \<le> n \<and> n \<le> 13) \<or> (28 \<le> n \<and> n \<le> 32) \<or> n = 133 \<or> n = 160)"

definition isalnum :: "char \<Rightarrow> bool" where
  "isalnum c = (let n = (of_char c :: nat) in
     (48 \<le> n \<and> n \<le> 57) \<or> (65 \<le> n \<and> n \<le> 90) \<or> (97 \<le> n \<and> n \<le> 122)
     \<or> n = 170 \<or> n = 178 \<or> n = 179 \<or> n = 181 \<or> n = 185 \<or> n = 186
     \<or> (188 \<le> n \<and> n \<le> 190) \<or> (192 \<le> n \<and> n \<le> 214)
     \<or> (216 \<le> n \<and> n \<le> 246) \<or> (248 \<le> n \<and> n \<le> 255))"

text \<open>\<^verbatim>\<open>s.isalnum()\<close> on a string: every character is alphanumeric and there is
  at least one.\<close>

definition str_isalnum :: "string \<Rightarrow> bool" where
  "str_isalnum s = (s \<noteq> [] \<and> list_all isalnum s)"

text \<open>The lower-case form of a letter A to Z; what the code compares ignoring case is
  ASCII (header names, weekday, month and time zone names, \<^verbatim>\<open>LIKE\<close>).\<close>

definition lower_char :: "char \<Rightarrow> char" where
  "lower_char c =
     (case map_of (zip ''ABCDEFGHIJKLMNOPQRSTUVWXYZ'' ''abcdefghijklmnopqrstuvwxyz'') c of
        None \<Rightarrow> c
      | Some l \<Rightarrow> l)"

definition rstrip :: "string \<Rightarrow> string" where
  "rstrip s = rev (dropWhile isspace (rev s))"

definition strip :: "string \<Rightarrow> string" where
  "strip s = rstrip (dropWhile isspace s)"

definition startswith :: "string \<Rightarrow> string \<Rightarrow> bool" where
  "startswith s p = (take (length p) s = p)"

text \<open>\<^verbatim>\<open>v[key]\<close> with a string key.  Only a dictionary has string keys; a
  string, a list and \<^verbatim>\<open>None\<close> raise \<^verbatim>\<open>TypeError\<close>.\<close>

fun getitem :: "pyval \<Rightarrow> string \<Rightarrow> error + pyval" where
  "getitem (PDict kvs) key = (case map_of kvs key of None \<Rightarrow> Inl KeyError | Some v \<Rightarrow> Inr v)"
| "getitem (PStr s) key = Inl TypeError"
| "getitem (PList vs) key = Inl TypeError"
| "getitem PNone key = Inl TypeError"

text \<open>\<^verbatim>\<open>v.get(key)\<close>: \<^verbatim>\<open>None\<close> for a missing key; values other than a
  dictionary have no such method.\<close>

fun dict_get :: "pyval \<Rightarrow> string \<Rightarrow> error + pyval" where
  "dict_get (PDict kvs) key = (case map_of kvs key of None \<Rightarrow> Inr PNone | Some v \<Rightarrow> Inr v)"
| "dict_get (PStr s) key = Inl AttributeError"
| "dict_get (PList vs) key = Inl AttributeError"
| "dict_get PNone key = Inl AttributeError"

text \<open>\<^verbatim>\<open>for x in v\<close>: a list yields its elements, a dictionary its keys, a
  string its characters (as one-character strings); \<^verbatim>\<open>None\<close> is not iterable.\<close>

fun py_iter :: "pyval \<Rightarrow> error + pyval list" where
  "py_iter (PList vs) = Inr vs"
| "py_iter (PDict kvs) = Inr (map (\<lambda>kv. PStr (fst kv)) kvs)"
| "py_iter (PStr s) = Inr (map (\<lambda>c. PStr [c]) s)"
| "py_iter PNone = Inl TypeError"

text \<open>\<^verbatim>\<open>sep.join(xs)\<close>.\<close>

fun intercalate :: "string \<Rightarrow> string list \<Rightarrow> string" where
  "intercalate sep [] = []"
| "intercalate sep [x] = x"
| "intercalate sep (x # y # zs) = x @ sep @ intercalate sep (y # zs)"

text \<open>The text an f-string writes for a value: a string as it is, \<^verbatim>\<open>None\<close> as
  \<^verbatim>\<open>None\<close>, a dictionary or list by its \<^verbatim>\<open>repr\<close>, the entries separated by
  a comma and a blank (strings are written here between single quotes, without escapes;
  the text only ever names a directory).\<close>

fun py_repr :: "pyval \<Rightarrow> string" where
  "py_repr PNone = ''None''"
| "py_repr (PStr s) = [CHR 0x27] @ s @ [CHR 0x27]"
| "py_repr (PDict kvs) =
     ''{'' @ intercalate '', ''
        (map (\<lambda>kv. [CHR 0x27] @ fst kv @ [CHR 0x27] @ '': '' @ py_repr (snd kv)) kvs) @ ''}''"
| "py_repr (PList vs) = ''['' @ intercalate '', '' (map py_repr vs) @ '']''"

fun py_format :: "pyval \<Rightarrow> string" where
  "py_format (PStr s) = s"
| "py_format v = py_repr v"

subsection \<open>safe_filename\<close>

text \<open>
  \<^verbatim>\<open>"".join(c for c in fname if c.isalnum() or c in (" ", ".", "_", "-")).rstrip()\<close>
  (\<^verbatim>\<open>download_feeds.py\<close> line 30, and again inline at line 232).  The argument comes out
  of the parsed feed, so it need not be a string: the elements the iteration yields are
  tested one by one, and one that is not a string has no \<^verbatim>\<open>isalnum\<close>.
\<close>

fun keep_char :: "pyval \<Rightarrow> error + bool" where
  "keep_char (PStr s) = Inr (str_isalnum s \<or> s = '' '' \<or> s = ''.'' \<or> s = ''_'' \<or> s = ''-'')"
| "keep_char v = Inl AttributeError"

fun join_kept :: "pyval list \<Rightarrow> error + string" where
  "join_kept [] = Inr []"
| "join_kept (c # cs) =
     (case keep_char c of
        Inl e \<Rightarrow> Inl e
      | Inr keep \<Rightarrow>
          (case join_kept cs of
             Inl e \<Rightarrow> Inl e
           | Inr r \<Rightarrow> Inr (if keep then py_format c @ r else r)))"

definition safe_filename :: "pyval \<Rightarrow> error + string" where
  "safe_filename fname =
     (case py_iter fname of
        Inl e \<Rightarrow> Inl e
      | Inr cs \<Rightarrow> (case join_kept cs of Inl e \<Rightarrow> Inl e | Inr s \<Rightarrow> Inr (rstrip s)))"

section \<open>xmltodict.parse\<close>

text \<open>
  An XML document as the parser events present it: an element has a tag, attributes,
  child elements and the character data directly inside it (all of it, concatenated).

  \<^verbatim>\<open>xmltodict.parse\<close> with its default arguments turns an element into
  \<^item> \<^verbatim>\<open>None\<close> or its stripped text, when it has neither attributes nor children;
  \<^item> otherwise a dictionary: \<^verbatim>\<open>@name\<close> for each attribute, then one key per child
    tag, then \<^verbatim>\<open>#text\<close> for non-blank text.
  A child tag that occurs once maps to that child's value; only a tag that occurs again
  maps to a list (\<open>push_data\<close>).
\<close>

datatype element = Element (tag: string) (attrs: "(string \<times> string) list")
  (children: "element list") (cdata: string)

fun dict_set :: "(string \<times> pyval) list \<Rightarrow> string \<Rightarrow> pyval \<Rightarrow> (string \<times> pyval) list" where
  "dict_set [] key v = [(key, v)]"
| "dict_set ((k, x) # kvs) key v =
     (if k = key then (k, v) # kvs else (k, x) # dict_set kvs key v)"

fun push_data :: "(string \<times> pyval) list \<Rightarrow> string \<Rightarrow> pyval \<Rightarrow> (string \<times> pyval) list" where
  "push_data [] key data = [(key, data)]"
| "push_data ((k, x) # kvs) key data =
     (if k = key
      then (k, (case x of PList vs \<Rightarrow> PList (vs @ [data]) | _ \<Rightarrow> PList [x, data])) # kvs
      else (k, x) # push_data kvs key data)"

definition attrs_dict :: "(string \<times> string) list \<Rightarrow> (string \<times> pyval) list" where
  "attrs_dict as = fold (\<lambda>kv d. dict_set d (''@'' @ fst kv) (PStr (snd kv))) as []"

fun element_value :: "element \<Rightarrow> pyval" where
  "element_value (Element t as cs txt) =
     (let item = fold (\<lambda>c d. push_data d (tag c) (element_value c)) cs (attrs_dict as);
          data = strip txt
      in if item = [] then (if data = [] then PNone else PStr data)
         else PDict (if data = [] then item else push_data item ''#text'' (PStr data)))"

definition xmltodict_parse :: "element \<Rightarrow> pyval" where
  "xmltodict_parse root = PDict [(tag root, element_value root)]"

section \<open>Dates\<close>

text \<open>
  \<^verbatim>\<open>datetime.strptime(s, "%a, %d %b %Y %H:%M:%S %Z")\<close> (line 236).  Python compiles
  the format into a regular expression, matched ignoring case at the start of the text:
  an abbreviated weekday name, a comma, white space, the day (\<^verbatim>\<open>3[0-1]|[1-2]\d|0[1-9]|[1-9]\<close>),
  white space, an abbreviated month name, white space, four digits of year, white space,
  hour \<^verbatim>\<open>2[0-3]|[0-1]\d|\d\<close>, a colon, minute \<^verbatim>\<open>[0-5]\d|\d\<close>, a colon,
  second \<^verbatim>\<open>6[0-1]|[0-5]\d|\d\<close>, white space and a time zone name; every blank of the
  format stands for one or more white space characters, and the whole text must be used
  up.  Each numeric field is followed by a character that is not a digit, so it is read
  as a maximal run of digits.  The time zone names are \<^verbatim>\<open>utc\<close>, \<^verbatim>\<open>gmt\<close> and the
  host's own (\<open>tznames\<close>, in lower case).  The weekday is not checked against the date; the
  date itself must exist (years 1 to 9999) and the second must be below 60, as the
  \<^verbatim>\<open>datetime\<close> constructor demands.  The result carries no time zone.
\<close>

record datetime =
  year :: nat
  month :: nat
  day :: nat
  hour :: nat
  minute :: nat
  second :: nat

definition digit_val :: "char \<Rightarrow> nat" where
  "digit_val c = of_char c - 48"

definition digits_val :: "string \<Rightarrow> nat" where
  "digits_val ds = foldl (\<lambda>n c. 10 * n + digit_val c) 0 ds"

definition lower :: "string \<Rightarrow> string" where
  "lower s = map lower_char s"

fun index_of :: "'a list \<Rightarrow> 'a \<Rightarrow> nat option" where
  "index_of [] x = None"
| "index_of (y # ys) x = (if y = x then Some 0 else map_option Suc (index_of ys x))"

definition a_weekday :: "string list" where
  "a_weekday = [''mon'', ''tue'', ''wed'', ''thu'', ''fri'', ''sat'', ''sun'']"

definition a_month :: "string list" where
  "a_month = [''jan'', ''feb'', ''mar'', ''apr'', ''may'', ''jun'',
              ''jul'', ''aug'', ''sep'', ''oct'', ''nov'', ''dec'']"

text \<open>One of the three-letter names, ignoring case: its index and the rest of the text.\<close>

definition match_name :: "string list \<Rightarrow> string \<Rightarrow> (nat \<times> string) option" where
  "match_name names s =
     (if length s < 3 then None
      else map_option (\<lambda>i. (i, drop 3 s)) (index_of names (lower (take 3 s))))"

text \<open>\<^verbatim>\<open>\s+\<close>: at least one white space character, then all that follow.\<close>

definition match_ws :: "string \<Rightarrow> string option" where
  "match_ws s = (case s of [] \<Rightarrow> None
                 | c # cs \<Rightarrow> if isspace c then Some (dropWhile isspace cs) else None)"

definition match_char :: "char \<Rightarrow> string \<Rightarrow> string option" where
  "match_char x s = (case s of [] \<Rightarrow> None | c # cs \<Rightarrow> if c = x then Some cs else None)"

text \<open>A maximal run of digits accepted by \<open>ok\<close>: its value and the rest.\<close>

definition match_digits :: "(string \<Rightarrow> bool) \<Rightarrow> string \<Rightarrow> (nat \<times> string) option" where
  "match_digits ok s =
     (let ds = takeWhile isdigit s in
      if ok ds then Some (digits_val ds, dropWhile isdigit s) else None)"

definition ok_d :: "string \<Rightarrow> bool" where
  "ok_d ds = ((length ds = 2 \<and> 1 \<le> digits_val ds \<and> digits_val ds \<le> 31)
             \<or> (length ds = 1 \<and> 1 \<le> digits_val ds))"

definition ok_Y :: "string \<Rightarrow> bool" where
  "ok_Y ds = (length ds = 4)"

definition ok_H :: "string \<Rightarrow> bool" where
  "ok_H ds = ((length ds = 2 \<and> digits_val ds \<le> 23) \<or> length ds = 1)"

definition ok_M :: "string \<Rightarrow> bool" where
  "ok_M ds = ((length ds = 2 \<and> digits_val ds \<le> 59) \<or> length ds = 1)"

definition ok_S :: "string \<Rightarrow> bool" where
  "ok_S ds = ((length ds = 2 \<and> digits_val ds \<le> 61) \<or> length ds = 1)"

definition is_leap :: "nat \<Rightarrow> bool" where
  "is_leap y = (y mod 4 = 0 \<and> (y mod 100 \<noteq> 0 \<or> y mod 400 = 0))"

definition days_in_month :: "nat \<Rightarrow> nat \<Rightarrow> nat" where
  "days_in_month y m =
     (if m = 2 then (if is_leap y then 29 else 28)
      else if m = 4 \<or> m = 6 \<or> m = 9 \<or> m = 11 then 30 else 31)"

definition valid_datetime :: "datetime \<Rightarrow> bool" where
  "valid_datetime d = (1 \<le> year d \<and> year d \<le> 9999 \<and> 1 \<le> day d
     \<and> day d \<le> days_in_month (year d) (month d) \<and> second d \<le> 59)"

definition strptime_str :: "string list \<Rightarrow> string \<Rightarrow> datetime option" where
  "strptime_str tzs s0 =
     Option.bind (match_name a_weekday s0) (\<lambda>(wd, s1).
     Option.bind (match_char CHR '','' s1) (\<lambda>s2.
     Option.bind (match_ws s2) (\<lambda>s3.
     Option.bind (match_digits ok_d s3) (\<lambda>(d, s4).
     Option.bind (match_ws s4) (\<lambda>s5.
     Option.bind (match_name a_month s5) (\<lambda>(b, s6).
     Option.bind (match_ws s6) (\<lambda>s7.
     Option.bind (match_digits ok_Y s7) (\<lambda>(y, s8).
     Option.bind (match_ws s8) (\<lambda>s9.
     Option.bind (match_digits ok_H s9) (\<lambda>(h, s10).
     Option.bind (match_char CHR '':'' s10) (\<lambda>s11.
     Option.bind (match_digits ok_M s11) (\<lambda>(mi, s12).
     Option.bind (match_char CHR '':'' s12) (\<lambda>s13.
     Option.bind (match_digits ok_S s13) (\<lambda>(sec, s14).
     Option.bind (match_ws s14) (\<lambda>s15.
       if lower s15 \<in> set ([''utc'', ''gmt''] @ tzs)
       then (let dt = \<lparr>year = y, month = Suc b, day = d, hour = h, minute = mi, second = sec\<rparr>
             in if valid_datetime dt then Some dt else None)
       else None)))))))))))))))"

text \<open>The first argument must be a string (\<^verbatim>\<open>TypeError\<close> otherwise); text that does
  not match is a \<^verbatim>\<open>ValueError\<close>.\<close>

fun strptime :: "string list \<Rightarrow> pyval \<Rightarrow> error + datetime" where
  "strptime tzs (PStr s) = (case strptime_str tzs s of None \<Rightarrow> Inl ValueError | Some d \<Rightarrow> Inr d)"
| "strptime tzs v = Inl TypeError"

definition digit_char :: "nat \<Rightarrow> char" where
  "digit_char d = ''0123456789'' ! (d mod 10)"

definition pad2 :: "nat \<Rightarrow> string" where
  "pad2 n = [digit_char (n div 10), digit_char n]"

definition pad4 :: "nat \<Rightarrow> string" where
  "pad4 n = [digit_char (n div 1000), digit_char (n div 100), digit_char (n div 10), digit_char n]"

text \<open>\<^verbatim>\<open>pub_date.isoformat()\<close> writes the year with four digits.
  \<^verbatim>\<open>pub_date.strftime("%Y-%m-%d")\<close> hands \<^verbatim>\<open>%Y\<close> to the C library, which on
  Linux writes the year without leading zeros (\<^verbatim>\<open>999-01-02\<close>); month and day have two
  digits.\<close>

definition isoformat :: "datetime \<Rightarrow> string" where
  "isoformat d = pad4 (year d) @ ''-'' @ pad2 (month d) @ ''-'' @ pad2 (day d) @ ''T''
     @ pad2 (hour d) @ '':'' @ pad2 (minute d) @ '':'' @ pad2 (second d)"

definition unpadded4 :: "nat \<Rightarrow> string" where
  "unpadded4 n = (if n < 10 then [digit_char n]
                  else if n < 100 then [digit_char (n div 10), digit_char n]
                  else if n < 1000 then [digit_char (n div 100), digit_char (n div 10), digit_char n]
                  else pad4 n)"

definition strftime_Ymd :: "datetime \<Rightarrow> string" where
  "strftime_Ymd d = unpadded4 (year d) @ ''-'' @ pad2 (month d) @ ''-'' @ pad2 (day d)"

text \<open>\<^verbatim>\<open>int(s)\<close> on text: white space around it, an optional sign, then digits, which
  single underscores may separate.  The white space \<^verbatim>\<open>int\<close> skips is tab to carriage
  return, the blank, U+0085 and U+00A0 (not U+001C to U+001F, which \<^verbatim>\<open>str.strip\<close>
  removes), and text of more than 4300 digits is refused.\<close>

definition int_space :: "char \<Rightarrow> bool" where
  "int_space c = (let n = (of_char c :: nat) in
     (9 \<le> n \<and> n \<le> 13) \<or> n = 32 \<or> n = 133 \<or> n = 160)"

fun underscores_ok :: "string \<Rightarrow> bool" where
  "underscores_ok [] = True"
| "underscores_ok [c] = isdigit c"
| "underscores_ok (c # d # cs) =
     ((isdigit c \<or> (c = CHR ''_'' \<and> isdigit d)) \<and> underscores_ok (d # cs))"

definition int_digits_ok :: "string \<Rightarrow> bool" where
  "int_digits_ok ds = (case ds of [] \<Rightarrow> False | c # cs \<Rightarrow> isdigit c \<and> underscores_ok ds)"

definition py_int :: "string \<Rightarrow> int option" where
  "py_int s =
     (let t = rev (dropWhile int_space (rev (dropWhile int_space s)));
          neg = (take 1 t = ''-'');
          ds = (if take 1 t = ''-'' \<or> take 1 t = ''+'' then drop 1 t else t)
      in if int_digits_ok ds \<and> length (filter isdigit ds) \<le> 4300
         then Some ((if neg then - 1 else 1) * int (digits_val (filter isdigit ds)))
         else None)"

section \<open>Paths\<close>

text \<open>
  A \<^verbatim>\<open>pathlib.Path\<close> on a POSIX host: a root (empty, \<^verbatim>\<open>/\<close> or \<^verbatim>\<open>//\<close>) and
  the parts between slashes, without empty parts and \<^verbatim>\<open>.\<close> parts.  \<^verbatim>\<open>..\<close> is
  kept as a part, as \<^verbatim>\<open>pathlib\<close> keeps it.
\<close>

datatype path = PurePath (root: string) (parts: "string list")

fun split_on :: "char \<Rightarrow> string \<Rightarrow> string list" where
  "split_on sep [] = [[]]"
| "split_on sep (c # cs) =
     (if c = sep then [] # split_on sep cs
      else (case split_on sep cs of [] \<Rightarrow> [[c]] | p # ps \<Rightarrow> (c # p) # ps))"

definition Path :: "string \<Rightarrow> path" where
  "Path s = PurePath
     (if startswith s ''//'' \<and> \<not> startswith s ''///'' then ''//''
      else if startswith s ''/'' then ''/'' else [])
     (filter (\<lambda>p. p \<noteq> [] \<and> p \<noteq> ''.'') (split_on CHR ''/'' s))"

text \<open>\<^verbatim>\<open>Path(p, segment)\<close>: an absolute segment replaces \<open>p\<close>.\<close>

definition joinpath :: "path \<Rightarrow> string \<Rightarrow> path" where
  "joinpath p seg =
     (if startswith seg ''/'' then Path seg
      else PurePath (root p) (parts p @ parts (Path seg)))"

definition as_posix :: "path \<Rightarrow> string" where
  "as_posix p = (if root p = [] \<and> parts p = [] then ''.''
                 else root p @ intercalate ''/'' (parts p))"

definition parent :: "path \<Rightarrow> path" where
  "parent p = PurePath (root p) (butlast (parts p))"

section \<open>The database\<close>

text \<open>
  The three tables as \<^verbatim>\<open>get_database\<close> creates them (lines 39-87).  A row is a
  record of its columns; a table is the list of its rows in rowid order together with the
  largest rowid it ever handed out (\<^verbatim>\<open>AUTOINCREMENT\<close>).  A text column holds text or
  \<^verbatim>\<open>NULL\<close>.  The columns \<open>enclosure_length\<close> and \<open>itunes_season\<close> are declared
  \<^verbatim>\<open>INTEGER\<close>: text bound to them is stored as the number it reads as, if it reads as
  one (\<open>integer_affinity\<close> below), and as text otherwise.

  The two programs create \<open>feed_item\<close> with different columns, so the database records
  which columns its \<open>feed_item\<close> table has; a statement that names a column the table
  lacks fails with \<^verbatim>\<open>OperationalError\<close>, and such a column is never written.
\<close>

subsection \<open>INTEGER affinity\<close>

text \<open>
  What an \<^verbatim>\<open>INTEGER\<close> column holds.  SQLite reads text bound to such a column as a
  number when all of it is a number: blanks (tab to carriage return, and the space), an
  optional sign, digits, optionally a point and digits, optionally an exponent
  (\<^verbatim>\<open>e\<close>, an optional sign, at least one digit), blanks; there must be a digit before
  the exponent.  Text with neither point nor exponent whose value fits 64 bits is stored
  as that integer.  Any other numeric text is read as a floating point number (and stored
  as an integer again if it equals one); that number is not computed here, \<open>SqlReal s\<close>
  stands for the number SQLite reads from \<open>s\<close>.  Text that is no number stays text.
\<close>

datatype sql_value = SqlNull | SqlInteger int | SqlReal string | SqlText string

definition sql_space :: "char \<Rightarrow> bool" where
  "sql_space c = ((9 \<le> (of_char c :: nat) \<and> (of_char c :: nat) \<le> 13) \<or> (of_char c :: nat) = 32)"

definition drop_sign :: "string \<Rightarrow> string" where
  "drop_sign s = (if take 1 s = ''-'' \<or> take 1 s = ''+'' then drop 1 s else s)"

text \<open>The parts of numeric text after the leading blanks and the sign: the digits before
  the point, whether there is a point, the digits after it, whether there is an exponent,
  the digits of the exponent, and what follows.\<close>

record numeric_text =
  int_digits :: string
  has_point :: bool
  frac_digits :: string
  has_exponent :: bool
  exp_digits :: string
  trailing :: string

definition scan_numeric :: "string \<Rightarrow> numeric_text" where
  "scan_numeric s =
     (let t1 = drop_sign (dropWhile sql_space s);
          ip = takeWhile isdigit t1;
          t2 = dropWhile isdigit t1;
          pt = (take 1 t2 = ''.'');
          fp = (if pt then takeWhile isdigit (drop 1 t2) else []);
          t3 = (if pt then dropWhile isdigit (drop 1 t2) else t2);
          ex = (take 1 t3 = ''e'' \<or> take 1 t3 = ''E'');
          t4 = (if ex then drop_sign (drop 1 t3) else t3);
          ed = (if ex then takeWhile isdigit t4 else []);
          t5 = (if ex then dropWhile isdigit t4 else t4)
      in \<lparr>int_digits = ip, has_point = pt, frac_digits = fp, has_exponent = ex,
          exp_digits = ed, trailing = dropWhile sql_space t5\<rparr>)"

definition is_numeric :: "numeric_text \<Rightarrow> bool" where
  "is_numeric n = (trailing n = [] \<and> (int_digits n \<noteq> [] \<or> frac_digits n \<noteq> [])
     \<and> (has_exponent n = (exp_digits n \<noteq> [])))"

definition is_negative :: "string \<Rightarrow> bool" where
  "is_negative s = (take 1 (dropWhile sql_space s) = ''-'')"

definition integer_affinity :: "string option \<Rightarrow> sql_value" where
  "integer_affinity x =
     (case x of
        None \<Rightarrow> SqlNull
      | Some s \<Rightarrow>
          (let n = scan_numeric s;
               v = (if is_negative s then - 1 else 1) * int (digits_val (int_digits n))
           in if \<not> is_numeric n then SqlText s
              else if \<not> has_point n \<and> \<not> has_exponent n
                      \<and> - (2 ^ 63) \<le> v \<and> v < 2 ^ 63
                   then SqlInteger v
                   else SqlReal s))"

record feed_row =
  feed_id :: nat
  feed_date_added :: string
  feed_url :: "string option"
  feed_title :: "string option"

record raw_feed_row =
  raw_feed_id :: nat
  raw_feed_feed_id :: nat
  raw_date_added :: string
  data :: pyval

record feed_item_row =
  feed_item_id :: nat
  item_feed_id :: nat
  guid :: "string option"
  item_date_added :: string
  item_title :: "string option"
  description :: "string option"
  pub_date :: "string option"
  itunes_duration :: "string option"
  enclosure_url :: "string option"
  enclosure_length :: sql_value
  enclosure_type :: "string option"
  itunes_season :: sql_value
  download_path :: "string option"

record database =
  feed :: "feed_row list"
  feed_seq :: nat
  raw_feed :: "raw_feed_row list"
  raw_feed_seq :: nat
  feed_item :: "feed_item_row list"
  feed_item_seq :: nat
  feed_item_columns :: "string list"

definition ingest_columns :: "string list" where
  "ingest_columns = [''feed_item_id'', ''feed_id'', ''guid'', ''date_added'', ''title'',
     ''description'', ''pub_date'', ''itunes_duration'', ''enclosure_url'',
     ''enclosure_length'', ''enclosure_type'', ''itunes_season'', ''download_path'']"

definition feedcli_columns :: "string list" where
  "feedcli_columns = [''feed_item_id'', ''feed_id'', ''guid'', ''date_added'', ''title'',
     ''pub_date'', ''itunes_duration'', ''enclosure_url'',
     ''enclosure_length'', ''enclosure_type'', ''itunes_season'', ''download_path'']"

definition new_database :: "string list \<Rightarrow> database" where
  "new_database cols = \<lparr>feed = [], feed_seq = 0, raw_feed = [], raw_feed_seq = 0,
     feed_item = [], feed_item_seq = 0, feed_item_columns = cols\<rparr>"

text \<open>The rowid \<^verbatim>\<open>AUTOINCREMENT\<close> gives a new row: one more than the largest rowid
  the table holds or ever held.\<close>

definition next_rowid :: "nat \<Rightarrow> nat list \<Rightarrow> nat" where
  "next_rowid seq ids = Suc (fold max ids seq)"

definition has_columns :: "database \<Rightarrow> string list \<Rightarrow> bool" where
  "has_columns db cols = list_all (\<lambda>c. c \<in> set (feed_item_columns db)) cols"

text \<open>Binding a Python value to a \<^verbatim>\<open>?\<close>: \<^verbatim>\<open>None\<close> is \<^verbatim>\<open>NULL\<close>, a string
  is text, and \<^verbatim>\<open>sqlite3\<close> refuses a dictionary or a list.\<close>

fun bind_param :: "pyval \<Rightarrow> error + string option" where
  "bind_param PNone = Inr None"
| "bind_param (PStr s) = Inr (Some s)"
| "bind_param (PDict kvs) = Inl ProgrammingError"
| "bind_param (PList vs) = Inl ProgrammingError"

fun bind_params :: "pyval list \<Rightarrow> error + string option list" where
  "bind_params [] = Inr []"
| "bind_params (v # vs) =
     (case bind_param v of
        Inl e \<Rightarrow> Inl e
      | Inr x \<Rightarrow> (case bind_params vs of Inl e \<Rightarrow> Inl e | Inr xs \<Rightarrow> Inr (x # xs)))"

subsection \<open>upsert_feed (lines 100-132)\<close>

text \<open>
  The connection is passed and returned.  When a statement fails nothing has been
  written yet (the failing statement is the first that writes), so a failure returns only
  the error and the connection is as it was.  \<open>now\<close> is what \<^verbatim>\<open>CURRENT_TIMESTAMP\<close>
  yields; the snapshot column holds the parsed document, of which \<^verbatim>\<open>json.dumps\<close> is
  the text.
\<close>

definition insert_raw_feed :: "string \<Rightarrow> database \<Rightarrow> nat \<Rightarrow> pyval \<Rightarrow> database" where
  "insert_raw_feed now con fid channel_dict =
     (let rid = next_rowid (raw_feed_seq con) (map raw_feed_id (raw_feed con))
      in con\<lparr>raw_feed := raw_feed con @
                [\<lparr>raw_feed_id = rid, raw_feed_feed_id = fid, raw_date_added = now,
                  data = channel_dict\<rparr>],
              raw_feed_seq := rid\<rparr>)"

definition upsert_feed ::
  "string \<Rightarrow> database \<Rightarrow> string \<Rightarrow> pyval \<Rightarrow> pyval \<Rightarrow> error + nat \<times> database" where
  "upsert_feed now con url title channel_dict =
     (case find (\<lambda>r. feed_url r = Some url) (feed con) of
        None \<Rightarrow>
          (case bind_param title of
             Inl e \<Rightarrow> Inl e
           | Inr t \<Rightarrow>
               (let fid = next_rowid (feed_seq con) (map feed_id (feed con));
                    con1 = con\<lparr>feed := feed con @
                             [\<lparr>feed_id = fid, feed_date_added = now, feed_url = Some url,
                               feed_title = t\<rparr>],
                           feed_seq := fid\<rparr>
                in Inr (fid, insert_raw_feed now con1 fid channel_dict)))
      | Some feed_id_rec \<Rightarrow>
          (case bind_param title of
             Inl e \<Rightarrow> Inl e
           | Inr t \<Rightarrow>
               (let con1 = con\<lparr>feed := map (\<lambda>r. if feed_url r = Some url
                                                 then r\<lparr>feed_title := t\<rparr> else r) (feed con)\<rparr>
                in Inr (feed_id feed_id_rec,
                        insert_raw_feed now con1 (feed_id feed_id_rec) channel_dict))))"

subsection \<open>upsert_feed_item (lines 135-214)\<close>

text \<open>The metadata of one call, in the order of the parameters after \<open>guid\<close>: title,
  description, pub_date, itunes_duration, item_url, item_length, item_type,
  itunes_season.\<close>

record metadata =
  m_title :: pyval
  m_description :: pyval
  m_pub_date :: pyval
  m_itunes_duration :: pyval
  m_item_url :: pyval
  m_item_length :: pyval
  m_item_type :: pyval
  m_itunes_season :: pyval

definition metadata_params :: "metadata \<Rightarrow> pyval list" where
  "metadata_params m = [m_title m, m_description m, m_pub_date m, m_itunes_duration m,
     m_item_url m, m_item_length m, m_item_type m, m_itunes_season m]"

text \<open>The columns a row gets from bound metadata (\<open>SET guid = ?, title = ?, ...\<close>); every
  other column of the row stays.  The two \<^verbatim>\<open>INTEGER\<close> columns take their value through
  the affinity.\<close>

fun set_metadata :: "string option \<Rightarrow> string option list \<Rightarrow> feed_item_row \<Rightarrow> feed_item_row" where
  "set_metadata g [t, d, p, du, u, l, ty, se] r =
     r\<lparr>guid := g, item_title := t, description := d, pub_date := p, itunes_duration := du,
       enclosure_url := u, enclosure_length := integer_affinity l, enclosure_type := ty,
       itunes_season := integer_affinity se\<rparr>"
| "set_metadata g xs r = r"

definition blank_item :: "nat \<Rightarrow> nat \<Rightarrow> string \<Rightarrow> feed_item_row" where
  "blank_item iid fid now = \<lparr>feed_item_id = iid, item_feed_id = fid, guid = None,
     item_date_added = now, item_title = None, description = None, pub_date = None,
     itunes_duration = None, enclosure_url = None, enclosure_length = SqlNull,
     enclosure_type = None, itunes_season = SqlNull, download_path = None\<rparr>"

definition upsert_feed_item ::
  "string \<Rightarrow> database \<Rightarrow> nat \<Rightarrow> pyval \<Rightarrow> metadata \<Rightarrow> error + nat \<times> database" where
  "upsert_feed_item now con fid g m =
     (if \<not> has_columns con [''feed_item_id'', ''feed_id'', ''guid''] then Inl OperationalError
      else case bind_param g of
        Inl e \<Rightarrow> Inl e
      | Inr gv \<Rightarrow>
         (case find (\<lambda>r. item_feed_id r = fid \<and> gv \<noteq> None \<and> guid r = gv) (feed_item con) of
            None \<Rightarrow>
              (if \<not> has_columns con [''feed_id'', ''guid'', ''date_added'', ''title'',
                     ''description'', ''pub_date'', ''itunes_duration'', ''enclosure_url'',
                     ''enclosure_length'', ''enclosure_type'', ''itunes_season'',
                     ''feed_item_id'']
               then Inl OperationalError
               else case bind_params (metadata_params m) of
                 Inl e \<Rightarrow> Inl e
               | Inr xs \<Rightarrow>
                   (let iid = next_rowid (feed_item_seq con) (map feed_item_id (feed_item con))
                    in Inr (iid, con\<lparr>feed_item := feed_item con @
                                      [set_metadata gv xs (blank_item iid fid now)],
                                    feed_item_seq := iid\<rparr>)))
          | Some feed_item_id_rec \<Rightarrow>
              (if \<not> has_columns con [''guid'', ''title'', ''description'', ''pub_date'',
                     ''itunes_duration'', ''enclosure_url'', ''enclosure_length'',
                     ''enclosure_type'', ''itunes_season'', ''feed_item_id'']
               then Inl OperationalError
               else case bind_params (metadata_params m) of
                 Inl e \<Rightarrow> Inl e
               | Inr xs \<Rightarrow>
                   Inr (feed_item_id feed_item_id_rec,
                        con\<lparr>feed_item := map (\<lambda>r. if feed_item_id r = feed_item_id feed_item_id_rec
                                                  then set_metadata gv xs r else r)
                                              (feed_item con)\<rparr>))))"

text \<open>\<^verbatim>\<open>SELECT download_path FROM feed_item WHERE feed_item_id = ?\<close> and
  \<^verbatim>\<open>cur.fetchone()[0]\<close> (lines 259-263); with no row \<^verbatim>\<open>fetchone\<close> gives
  \<^verbatim>\<open>None\<close>, which has no index.\<close>

definition select_download_path :: "database \<Rightarrow> nat \<Rightarrow> error + string option" where
  "select_download_path con iid =
     (if \<not> has_columns con [''download_path'', ''feed_item_id''] then Inl OperationalError
      else case find (\<lambda>r. feed_item_id r = iid) (feed_item con) of
             None \<Rightarrow> Inl TypeError
           | Some r \<Rightarrow> Inr (download_path r))"

text \<open>\<^verbatim>\<open>UPDATE feed_item SET download_path = ? WHERE feed_item_id = ?\<close> (lines 285-288).\<close>

definition update_download_path :: "database \<Rightarrow> string \<Rightarrow> nat \<Rightarrow> error + database" where
  "update_download_path con p iid =
     (if \<not> has_columns con [''download_path'', ''feed_item_id''] then Inl OperationalError
      else Inr (con\<lparr>feed_item := map (\<lambda>r. if feed_item_id r = iid
                                              then r\<lparr>download_path := Some p\<rparr> else r)
                                        (feed_item con)\<rparr>))"

section \<open>The world: connection, files, network, clock\<close>

text \<open>
  \<^item> \<open>con\<close> is the database as the open connection sees it, \<open>db_file\<close> the database
    file (\<open>None\<close> while it does not exist): \<^verbatim>\<open>commit\<close> copies the first to the
    second, \<^verbatim>\<open>rollback\<close> the second to the first.
  \<^item> \<open>files\<close> and \<open>dirs\<close> are the files and directories under their paths, read as
    written (no symbolic links, no permissions; \<^verbatim>\<open>..\<close> is not resolved).  A path
    without parts (the working directory, the root) is a directory.
  \<^item> \<open>net\<close> is what a GET of a URL meets: nothing (the request raises), or a response
    with its status, headers and body; the body arrives in \<open>chunks\<close>, and
    \<open>interrupted\<close> says that the stream breaks after the last of them.
  \<^item> \<open>parse_xml\<close> is the XML parser: the document a text holds, if it is well-formed.
  \<^item> \<open>timer\<close> gives the reading of the \<open>n\<close>-th call of \<^verbatim>\<open>time.time()\<close>.
  \<^item> \<open>stderr\<close> holds the log lines (without their time stamps and transfer rates).
\<close>

record response =
  status_code :: nat
  headers :: "(string \<times> string) list"
  chunks :: "bytes list"
  interrupted :: bool

datatype log_line =
    DownloadingFeed string
  | Downloading string
  | Progress nat int
  | ErrorProcessing string

record world =
  con :: database
  db_file :: "database option"
  files :: "path \<rightharpoonup> bytes"
  dirs :: "path set"
  net :: "string \<Rightarrow> response option"
  parse_xml :: "bytes \<Rightarrow> element option"
  tznames :: "string list"
  current_timestamp :: string
  timer :: "nat \<Rightarrow> nat"
  timer_calls :: nat
  stderr :: "log_line list"

type_synonym 'a io = "world \<Rightarrow> (error + 'a) \<times> world"

definition io_return :: "'a \<Rightarrow> 'a io" where
  "io_return a = (\<lambda>w. (Inr a, w))"

definition io_raise :: "error \<Rightarrow> 'a io" where
  "io_raise e = (\<lambda>w. (Inl e, w))"

definition io_bind :: "'a io \<Rightarrow> ('a \<Rightarrow> 'b io) \<Rightarrow> 'b io" where
  "io_bind m f = (\<lambda>w. case m w of (Inl e, w') \<Rightarrow> (Inl e, w') | (Inr a, w') \<Rightarrow> f a w')"

definition io_lift :: "error + 'a \<Rightarrow> 'a io" where
  "io_lift r = (\<lambda>w. (r, w))"

text \<open>A statement on the connection: the connection changes only when it succeeds.\<close>

definition io_sql :: "(database \<Rightarrow> error + 'a \<times> database) \<Rightarrow> 'a io" where
  "io_sql f = (\<lambda>w. case f (con w) of
                      Inl e \<Rightarrow> (Inl e, w)
                    | Inr (a, c) \<Rightarrow> (Inr a, w\<lparr>con := c\<rparr>))"

definition log :: "log_line \<Rightarrow> unit io" where
  "log l = (\<lambda>w. (Inr (), w\<lparr>stderr := stderr w @ [l]\<rparr>))"

definition time_time :: "nat io" where
  "time_time = (\<lambda>w. (Inr (timer w (timer_calls w)), w\<lparr>timer_calls := Suc (timer_calls w)\<rparr>))"

subsection \<open>Files\<close>

definition is_dir :: "world \<Rightarrow> path \<Rightarrow> bool" where
  "is_dir w p = (parts p = [] \<or> p \<in> dirs w)"

definition is_file :: "world \<Rightarrow> path \<Rightarrow> bool" where
  "is_file w p = (files w p \<noteq> None)"

definition path_exists :: "world \<Rightarrow> path \<Rightarrow> bool" where
  "path_exists w p = (is_dir w p \<or> is_file w p)"

text \<open>\<^verbatim>\<open>os.mkdir\<close>.\<close>

definition os_mkdir :: "path \<Rightarrow> unit io" where
  "os_mkdir p = (\<lambda>w.
     if path_exists w p then (Inl FileExistsError, w)
     else if is_file w (parent p) then (Inl NotADirectoryError, w)
     else if is_dir w (parent p) then (Inr (), w\<lparr>dirs := insert p (dirs w)\<rparr>)
     else (Inl FileNotFoundError, w))"

text \<open>\<^verbatim>\<open>Path.mkdir(exist_ok=...)\<close> without \<^verbatim>\<open>parents\<close>: an error other than a
  missing parent is forgiven when \<^verbatim>\<open>exist_ok\<close> is set and the path is a directory.\<close>

definition mkdir :: "bool \<Rightarrow> path \<Rightarrow> unit io" where
  "mkdir exist_ok p = (\<lambda>w.
     case os_mkdir p w of
       (Inr u, w') \<Rightarrow> (Inr u, w')
     | (Inl e, w') \<Rightarrow>
         if e \<noteq> FileNotFoundError \<and> exist_ok \<and> is_dir w p then (Inr (), w) else (Inl e, w))"

text \<open>\<^verbatim>\<open>Path.mkdir(parents=True, exist_ok=...)\<close>: when the parent is missing it is made
  first, in the same way, and the directory is then made without \<^verbatim>\<open>parents\<close>.\<close>

function mkdir_parents :: "bool \<Rightarrow> path \<Rightarrow> unit io" where
  "mkdir_parents exist_ok p w =
     (case os_mkdir p w of
        (Inr u, w') \<Rightarrow> (Inr u, w')
      | (Inl e, w') \<Rightarrow>
          if e = FileNotFoundError
          then (if parent p = p then (Inl e, w)
                else (case mkdir_parents True (parent p) w of
                        (Inl e', w1) \<Rightarrow> (Inl e', w1)
                      | (Inr u, w1) \<Rightarrow> mkdir exist_ok p w1))
          else if exist_ok \<and> is_dir w p then (Inr (), w) else (Inl e, w))"
  by pat_completeness auto
termination
proof (relation "measure (\<lambda>(e, p, w). length (parts p))")
  show "wf (measure (\<lambda>(e, p, w). length (parts p)))"
    by simp
next
  fix exist_ok :: bool and p :: path and w :: world and x :: "(error + unit) \<times> world"
    and x1 :: "error + unit" and x2 :: world and a :: error
  assume "parent p \<noteq> p"
  then have "parts p \<noteq> []"
    by (cases p) (auto simp: parent_def)
  then show "((True, parent p, w), exist_ok, p, w) \<in> measure (\<lambda>(e, p, w). length (parts p))"
    by (simp add: parent_def)
qed

declare mkdir_parents.simps [simp del]

text \<open>\<^verbatim>\<open>open(name)\<close> for reading, and \<^verbatim>\<open>f.read()\<close>.\<close>

definition open_read :: "string \<Rightarrow> bytes io" where
  "open_read name = (\<lambda>w.
     if name = [] then (Inl FileNotFoundError, w)
     else case files w (Path name) of
            Some b \<Rightarrow> (Inr b, w)
          | None \<Rightarrow> if is_dir w (Path name) then (Inl IsADirectoryError, w)
                    else (Inl FileNotFoundError, w))"

text \<open>\<^verbatim>\<open>item_file.open("wb")\<close>: the file is created, or emptied.\<close>

definition open_wb :: "path \<Rightarrow> unit io" where
  "open_wb p = (\<lambda>w.
     if is_dir w p then (Inl IsADirectoryError, w)
     else if is_file w (parent p) then (Inl NotADirectoryError, w)
     else if is_dir w (parent p) then (Inr (), w\<lparr>files := (files w)(p \<mapsto> [])\<rparr>)
     else (Inl FileNotFoundError, w))"

definition file_write :: "path \<Rightarrow> bytes \<Rightarrow> unit io" where
  "file_write p chunk = (\<lambda>w.
     (Inr (), w\<lparr>files := (files w)(p \<mapsto> (case files w p of None \<Rightarrow> chunk
                                                | Some b \<Rightarrow> b @ chunk))\<rparr>))"

subsection \<open>Network\<close>

text \<open>\<^verbatim>\<open>requests.get(url)\<close> reads the whole body, so a stream that breaks raises
  there; \<^verbatim>\<open>requests.get(url, stream=True)\<close> returns once the headers are in.  A value
  that is not a string is no URL.\<close>

definition requests_get :: "string \<Rightarrow> response io" where
  "requests_get url = (\<lambda>w.
     case net w url of
       None \<Rightarrow> (Inl ConnectionError, w)
     | Some res \<Rightarrow> if interrupted res then (Inl ChunkedEncodingError, w) else (Inr res, w))"

fun requests_get_stream :: "pyval \<Rightarrow> response io" where
  "requests_get_stream (PStr url) =
     (\<lambda>w. case net w url of None \<Rightarrow> (Inl ConnectionError, w) | Some res \<Rightarrow> (Inr res, w))"
| "requests_get_stream v = io_raise ValueError"

text \<open>\<^verbatim>\<open>res.headers[name]\<close>: header names are compared ignoring case.\<close>

definition header :: "response \<Rightarrow> string \<Rightarrow> error + string" where
  "header res name =
     (case find (\<lambda>kv. lower (fst kv) = lower name) (headers res) of
        None \<Rightarrow> Inl KeyError
      | Some kv \<Rightarrow> Inr (snd kv))"

subsection \<open>get_feed_xml (lines 19-26, and again 90-97)\<close>

definition get_feed_xml :: "string \<Rightarrow> bytes io" where
  "get_feed_xml url =
     (if startswith url ''file://'' then open_read (drop 7 url)
      else io_bind (requests_get url) (\<lambda>res.
             if 400 \<le> status_code res \<and> status_code res < 600 then io_raise HTTPError
             else io_return (concat (chunks res))))"

section \<open>process_one_feed (lines 217-288)\<close>

subsection \<open>The download (lines 270-288)\<close>

text \<open>The progress line divides by the expected size and by the time elapsed since
  the download began; either can be zero.\<close>

definition log_progress :: "nat \<Rightarrow> int \<Rightarrow> nat \<Rightarrow> nat \<Rightarrow> unit io" where
  "log_progress bytes_downloaded expected_bytes current_time download_start_time =
     (if expected_bytes = 0 \<or> current_time = download_start_time
      then io_raise ZeroDivisionError
      else log (Progress bytes_downloaded expected_bytes))"

text \<open>The loop over \<^verbatim>\<open>iter_content\<close> (lines 277-281), on the pair of
  \<open>bytes_downloaded\<close> and \<open>current_time\<close>.\<close>

fun write_chunks ::
  "path \<Rightarrow> int \<Rightarrow> nat \<Rightarrow> bool \<Rightarrow> bytes list \<Rightarrow> nat \<times> nat \<Rightarrow> (nat \<times> nat) io" where
  "write_chunks f expected_bytes t0 broken [] st =
     (if broken then io_raise ChunkedEncodingError else io_return st)"
| "write_chunks f expected_bytes t0 broken (chunk # cs) st =
     io_bind (file_write f chunk) (\<lambda>u.
     io_bind time_time (\<lambda>t.
     io_bind (log_progress (fst st + length chunk) expected_bytes t t0) (\<lambda>u.
       write_chunks f expected_bytes t0 broken cs (fst st + length chunk, t))))"

definition download :: "path \<Rightarrow> pyval \<Rightarrow> nat \<Rightarrow> unit io" where
  "download item_file item_url iid =
     io_bind (log (Downloading (as_posix item_file))) (\<lambda>u.
     io_bind (requests_get_stream item_url) (\<lambda>item_res.
     io_bind (io_lift (header item_res ''content-length'')) (\<lambda>cl.
     io_bind (io_lift (case py_int cl of None \<Rightarrow> Inl ValueError | Some n \<Rightarrow> Inr n))
       (\<lambda>expected_bytes.
     io_bind time_time (\<lambda>t0.
     io_bind (open_wb item_file) (\<lambda>u.
     io_bind (write_chunks item_file expected_bytes t0 (interrupted item_res)
                (chunks item_res) (0, t0)) (\<lambda>st.
     io_bind (log_progress (fst st) expected_bytes (snd st) t0) (\<lambda>u.
       io_sql (\<lambda>c. map_sum id (Pair ())
                 (update_download_path c (as_posix item_file) iid))))))))))"

subsection \<open>One item (the body of the loop, lines 231-288)\<close>

text \<open>Lines 231-236: the title, the file name made of it, the enclosure URL and the
  publication date.\<close>

record item_head =
  h_title :: pyval
  h_filename :: string
  h_url :: pyval
  h_pub_date :: datetime

definition sum_bind :: "error + 'a \<Rightarrow> ('a \<Rightarrow> error + 'b) \<Rightarrow> error + 'b" where
  "sum_bind r f = (case r of Inl e \<Rightarrow> Inl e | Inr a \<Rightarrow> f a)"

definition item_head :: "string list \<Rightarrow> pyval \<Rightarrow> error + item_head" where
  "item_head tzs item =
     sum_bind (getitem item ''title'') (\<lambda>item_title.
     sum_bind (safe_filename item_title) (\<lambda>item_filename.
     sum_bind (getitem item ''enclosure'') (\<lambda>enclosure.
     sum_bind (getitem enclosure ''@url'') (\<lambda>item_url.
     sum_bind (getitem item ''pubDate'') (\<lambda>pd.
     sum_bind (strptime tzs pd) (\<lambda>pubdate.
       Inr \<lparr>h_title = item_title, h_filename = item_filename, h_url = item_url,
            h_pub_date = pubdate\<rparr>))))))"

text \<open>Lines 238-243: the directory of the item, made if the item names a season.\<close>

definition item_dir :: "path \<Rightarrow> pyval \<Rightarrow> path io" where
  "item_dir feed_dir item =
     io_bind (io_lift (dict_get item ''itunes:season'')) (\<lambda>item_season.
       if item_season \<noteq> PNone
       then io_bind (mkdir True (joinpath feed_dir (''Season '' @ py_format item_season)))
              (\<lambda>u. io_return (joinpath feed_dir (''Season '' @ py_format item_season)))
       else io_return feed_dir)"

text \<open>Lines 245-257: the arguments of \<open>upsert_feed_item\<close>, evaluated in their order.\<close>

definition item_args :: "item_head \<Rightarrow> pyval \<Rightarrow> error + pyval \<times> metadata" where
  "item_args h item =
     sum_bind (getitem item ''guid'') (\<lambda>gd.
     sum_bind (getitem gd ''#text'') (\<lambda>g.
     sum_bind (getitem item ''description'') (\<lambda>descr.
     sum_bind (dict_get item ''itunes:duration'') (\<lambda>duration.
     sum_bind (getitem item ''enclosure'') (\<lambda>enclosure.
     sum_bind (getitem enclosure ''@length'') (\<lambda>len.
     sum_bind (getitem enclosure ''@type'') (\<lambda>ty.
     sum_bind (dict_get item ''itunes:season'') (\<lambda>item_season.
       Inr (g, \<lparr>m_title = h_title h, m_description = descr,
                m_pub_date = PStr (isoformat (h_pub_date h)), m_itunes_duration = duration,
                m_item_url = h_url h, m_item_length = len, m_item_type = ty,
                m_itunes_season = item_season\<rparr>)))))))))"

text \<open>Lines 264-268: the stored path if there is one, the canonical path otherwise.\<close>

definition resolve_item_file :: "string option \<Rightarrow> path \<Rightarrow> item_head \<Rightarrow> path" where
  "resolve_item_file stored dir h =
     (case stored of
        None \<Rightarrow> joinpath dir (strftime_Ymd (h_pub_date h) @ '' '' @ h_filename h @ ''.mp3'')
      | Some s \<Rightarrow> Path s)"

text \<open>Lines 231-268: everything before the test whether the file exists.  The result
  names the enclosure URL, the row of the episode, the path the row held and the path
  the file is looked for at.\<close>

record reconciled =
  rc_url :: pyval
  rc_id :: nat
  rc_stored :: "string option"
  rc_file :: path

definition reconcile_item :: "nat \<Rightarrow> path \<Rightarrow> pyval \<Rightarrow> reconciled io" where
  "reconcile_item fid feed_dir item =
     io_bind (\<lambda>w. (item_head (tznames w) item, w)) (\<lambda>h.
     io_bind (item_dir feed_dir item) (\<lambda>dir.
     io_bind (io_lift (item_args h item)) (\<lambda>args.
     io_bind (\<lambda>w. io_sql (\<lambda>c. upsert_feed_item (current_timestamp w) c fid (fst args) (snd args)) w)
       (\<lambda>iid.
     io_bind (io_sql (\<lambda>c. map_sum id (\<lambda>p. (p, c)) (select_download_path c iid))) (\<lambda>stored.
       io_return \<lparr>rc_url = h_url h, rc_id = iid, rc_stored = stored,
                  rc_file = resolve_item_file stored dir h\<rparr>)))))"

text \<open>Lines 270-288: the download, unless something exists at the path.\<close>

definition process_item :: "nat \<Rightarrow> path \<Rightarrow> pyval \<Rightarrow> unit io" where
  "process_item fid feed_dir item =
     io_bind (reconcile_item fid feed_dir item) (\<lambda>rc.
     io_bind (\<lambda>w. (Inr (path_exists w (rc_file rc)), w)) (\<lambda>present.
       if present then io_return ()
       else download (rc_file rc) (rc_url rc) (rc_id rc)))"

fun process_items :: "nat \<Rightarrow> path \<Rightarrow> pyval list \<Rightarrow> unit io" where
  "process_items fid feed_dir [] = io_return ()"
| "process_items fid feed_dir (item # items) =
     io_bind (process_item fid feed_dir item) (\<lambda>u. process_items fid feed_dir items)"

subsection \<open>The feed (lines 217-230)\<close>

text \<open>Lines 218-230: the feed is fetched, parsed and upserted, its directory is made
  and the items are taken from the channel.\<close>

record opened_feed =
  of_id :: nat
  of_dir :: path
  of_items :: "pyval list"

definition open_feed :: "string \<Rightarrow> opened_feed io" where
  "open_feed url =
     io_bind (log (DownloadingFeed url)) (\<lambda>u.
     io_bind (get_feed_xml url) (\<lambda>feed_xml.
     io_bind (\<lambda>w. (case parse_xml w feed_xml of None \<Rightarrow> Inl ExpatError
                    | Some e \<Rightarrow> Inr (xmltodict_parse e), w)) (\<lambda>parsed.
     io_bind (io_lift (getitem parsed ''rss'')) (\<lambda>rss.
     io_bind (io_lift (getitem rss ''channel'')) (\<lambda>channel.
     io_bind (io_lift (getitem channel ''title'')) (\<lambda>title.
     io_bind (\<lambda>w. io_sql (\<lambda>c. upsert_feed (current_timestamp w) c url title parsed) w) (\<lambda>fid.
     io_bind (io_lift (safe_filename title)) (\<lambda>fname.
     io_bind (mkdir_parents True (Path fname)) (\<lambda>u.
     io_bind (io_lift (getitem channel ''item'')) (\<lambda>its.
     io_bind (io_lift (py_iter its)) (\<lambda>items.
       io_return \<lparr>of_id = fid, of_dir = Path fname, of_items = items\<rparr>)))))))))))"

definition process_one_feed :: "string \<Rightarrow> unit io" where
  "process_one_feed url =
     io_bind (open_feed url) (\<lambda>f. process_items (of_id f) (of_dir f) (of_items f))"

section \<open>main (lines 291-307)\<close>

definition commit :: "world \<Rightarrow> world" where
  "commit w = w\<lparr>db_file := Some (con w)\<rparr>"

definition rollback :: "world \<Rightarrow> world" where
  "rollback w = (case db_file w of None \<Rightarrow> w | Some d \<Rightarrow> w\<lparr>con := d\<rparr>)"

text \<open>\<^verbatim>\<open>get_database\<close> (lines 39-87): the tables are created when the file does not
  exist; then the file is opened.\<close>

definition get_database :: "world \<Rightarrow> world" where
  "get_database w =
     (case db_file w of
        None \<Rightarrow> w\<lparr>db_file := Some (new_database ingest_columns),
                  con := new_database ingest_columns\<rparr>
      | Some d \<Rightarrow> w\<lparr>con := d\<rparr>)"

text \<open>One line of the feeds file (lines 299-307).\<close>

definition process_line :: "string \<Rightarrow> world \<Rightarrow> world" where
  "process_line raw w =
     (let line = strip raw in
      if line \<noteq> [] \<and> \<not> startswith line ''#''
      then (case process_one_feed line w of
              (Inr u, w') \<Rightarrow> commit w'
            | (Inl e, w') \<Rightarrow> rollback (w'\<lparr>stderr := stderr w' @ [ErrorProcessing line]\<rparr>))
      else w)"

text \<open>The connection is a context manager: leaving the \<^verbatim>\<open>with\<close> block commits.\<close>

definition main :: "string list \<Rightarrow> world \<Rightarrow> world" where
  "main feeds_file w = commit (fold process_line feeds_file (get_database w))"

section \<open>The query tool (feedcli.py)\<close>

text \<open>\<^verbatim>\<open>get_database\<close> of \<^verbatim>\<open>feedcli.py\<close> (lines 27-84) creates \<open>feed_item\<close> without
  the \<open>description\<close> column (and adds indexes, which change no result).\<close>

definition feedcli_get_database :: "world \<Rightarrow> world" where
  "feedcli_get_database w =
     (case db_file w of
        None \<Rightarrow> w\<lparr>db_file := Some (new_database feedcli_columns),
                  con := new_database feedcli_columns\<rparr>
      | Some d \<Rightarrow> w\<lparr>con := d\<rparr>)"

text \<open>\<^verbatim>\<open>text LIKE pattern\<close>: \<^verbatim>\<open>%\<close> stands for any text, \<^verbatim>\<open>_\<close> for one
  character, and letters match ignoring case.\<close>

fun sql_like :: "string \<Rightarrow> string \<Rightarrow> bool" where
  "sql_like [] t = (t = [])"
| "sql_like (p # ps) t =
     (if p = CHR ''%''
      then (case t of [] \<Rightarrow> sql_like ps [] | c # cs \<Rightarrow> sql_like ps t \<or> sql_like (p # ps) cs)
      else (case t of [] \<Rightarrow> False
            | c # cs \<Rightarrow> (p = CHR ''_'' \<or> lower_char p = lower_char c) \<and> sql_like ps cs))"

text \<open>\<^verbatim>\<open>CASE WHEN ? IS NULL THEN TRUE ELSE column LIKE ? END\<close> with the pattern
  \<^verbatim>\<open>f"%{x}%"\<close>; a \<^verbatim>\<open>NULL\<close> column matches no pattern.\<close>

definition like_filter :: "string option \<Rightarrow> string option \<Rightarrow> bool" where
  "like_filter x col =
     (case x of
        None \<Rightarrow> True
      | Some t \<Rightarrow> (case col of None \<Rightarrow> False | Some v \<Rightarrow> sql_like (''%'' @ t @ ''%'') v))"

text \<open>\<^verbatim>\<open>list_items\<close> (lines 110-124): the rows it prints, in their order.  The statement
  names the columns \<open>feed_id\<close>, \<open>title\<close>, \<open>description\<close> and \<open>pub_date\<close> whatever the
  arguments are.  The feed id is the number the command line text stands for.\<close>

definition list_items ::
  "database \<Rightarrow> nat option \<Rightarrow> string option \<Rightarrow> string option \<Rightarrow> error + feed_item_row list" where
  "list_items c fid ti de =
     (if \<not> has_columns c [''feed_id'', ''title'', ''description'', ''pub_date'']
      then Inl OperationalError
      else Inr (sort_key pub_date
             (filter (\<lambda>r. (case fid of None \<Rightarrow> True | Some f \<Rightarrow> item_feed_id r = f)
                          \<and> like_filter ti (item_title r)
                          \<and> like_filter de (description r))
                     (feed_item c))))"

section \<open>Vocabulary of the properties\<close>

text \<open>The rows of a feed URL; the rows of a pair of feed identifier and GUID; the
  metadata columns of a row; the download path the database holds for a pair.\<close>

definition has_url :: "string \<Rightarrow> feed_row \<Rightarrow> bool" where
  "has_url url r = (feed_url r = Some url)"

definition is_pair :: "nat \<Rightarrow> string \<Rightarrow> feed_item_row \<Rightarrow> bool" where
  "is_pair fid g r = (item_feed_id r = fid \<and> guid r = Some g)"

definition text_value :: "string option \<Rightarrow> sql_value" where
  "text_value x = (case x of None \<Rightarrow> SqlNull | Some s \<Rightarrow> SqlText s)"

definition row_metadata :: "feed_item_row \<Rightarrow> sql_value list" where
  "row_metadata r = [text_value (item_title r), text_value (description r),
     text_value (pub_date r), text_value (itunes_duration r), text_value (enclosure_url r),
     enclosure_length r, text_value (enclosure_type r), itunes_season r]"

text \<open>The values the metadata columns take from the bound arguments of one call: the text
  columns the argument itself, the two \<^verbatim>\<open>INTEGER\<close> columns (the sixth and the eighth
  argument) the argument under the affinity.\<close>

fun stored_metadata :: "string option list \<Rightarrow> sql_value list" where
  "stored_metadata [t, d, p, du, u, l, ty, se] =
     [text_value t, text_value d, text_value p, text_value du, text_value u,
      integer_affinity l, text_value ty, integer_affinity se]"
| "stored_metadata xs = map text_value xs"

text \<open>A sequence of calls of \<open>upsert_feed_item\<close> for one feed and one GUID, each with its
  own time stamp and metadata.\<close>

fun upsert_feed_item_calls ::
  "database \<Rightarrow> nat \<Rightarrow> pyval \<Rightarrow> (string \<times> metadata) list \<Rightarrow> error + database" where
  "upsert_feed_item_calls c fid g [] = Inr c"
| "upsert_feed_item_calls c fid g (nm # calls) =
     (case upsert_feed_item (fst nm) c fid g (snd nm) of
        Inl e \<Rightarrow> Inl e
      | Inr r \<Rightarrow> upsert_feed_item_calls (snd r) fid g calls)"

definition example_metadata :: "string \<Rightarrow> metadata" where
  "example_metadata t = \<lparr>m_title = PStr t, m_description = PStr ''About'',
     m_pub_date = PStr ''2023-01-02T10:00:00'', m_itunes_duration = PNone,
     m_item_url = PStr ''http://example.com/ep1.mp3'', m_item_length = PStr ''100'',
     m_item_type = PStr ''audio/mpeg'', m_itunes_season = PNone\<rparr>"

text \<open>The same episode with its length and season written with leading zeros.\<close>

definition padded_metadata :: "string \<Rightarrow> metadata" where
  "padded_metadata t = (example_metadata t)
     \<lparr>m_item_length := PStr ''0100'', m_itunes_season := PStr ''03''\<rparr>"

definition downloaded_db :: database where
  "downloaded_db = (new_database ingest_columns)
     \<lparr>feed_item := [(blank_item 1 1 ''2023-01-02 12:00:00'')
         \<lparr>guid := Some ''abc123'',
          download_path := Some ''Example Show/2023-01-02 Ep 1.mp3''\<rparr>],
      feed_item_seq := 1\<rparr>"

definition stored_path :: "database \<Rightarrow> nat \<Rightarrow> string \<Rightarrow> string option" where
  "stored_path c fid g =
     (case find (is_pair fid g) (feed_item c) of None \<Rightarrow> None | Some r \<Rightarrow> download_path r)"

text \<open>Example worlds: the sites of the network and the documents of the feed texts are
  given as tables; nothing is on disk, the database file does not exist, and the clock
  advances between any two readings.\<close>

definition example_world :: "(string \<times> response) list \<Rightarrow> (bytes \<times> element) list \<Rightarrow> world" where
  "example_world sites docs =
     \<lparr>con = new_database [], db_file = None, files = Map.empty, dirs = {},
      net = map_of sites, parse_xml = map_of docs, tznames = [],
      current_timestamp = ''2023-01-10 00:00:00'', timer = (\<lambda>n. n), timer_calls = 0,
      stderr = []\<rparr>"

text \<open>\<open>io_inv R m\<close>: whatever \<open>m\<close> does, on success or failure, takes a world to one
  related to it by \<open>R\<close>.\<close>

definition io_inv :: "(world \<Rightarrow> world \<Rightarrow> bool) \<Rightarrow> 'a io \<Rightarrow> bool" where
  "io_inv R m = (\<forall>w. R w (snd (m w)))"

text \<open>What no step of the ingestion undoes: the database file, the network, the parser,
  the time zone names and the clock are as they were; what exists on disk still exists;
  the log has only grown; the \<open>feed_item\<close> columns are the same.\<close>

definition step :: "world \<Rightarrow> world \<Rightarrow> bool" where
  "step w w' = (db_file w' = db_file w \<and> net w' = net w \<and> parse_xml w' = parse_xml w
     \<and> tznames w' = tznames w \<and> current_timestamp w' = current_timestamp w
     \<and> timer w' = timer w
     \<and> (\<forall>p. path_exists w p \<longrightarrow> path_exists w' p)
     \<and> (\<exists>l. stderr w' = stderr w @ l)
     \<and> feed_item_columns (con w') = feed_item_columns (con w))"

subsection \<open>An example feed\<close>

text \<open>The feed of the end-to-end scenario: the show is titled \<^verbatim>\<open>Example Show\<close>, an
  episode has a title, a GUID, a publication date and an enclosure of 100 bytes.\<close>

definition episode :: "string \<Rightarrow> string \<Rightarrow> string \<Rightarrow> string \<Rightarrow> element" where
  "episode t g d u = Element ''item'' []
     [Element ''title'' [] [] t,
      Element ''guid'' [(''isPermaLink'', ''false'')] [] g,
      Element ''description'' [] [] ''About'',
      Element ''pubDate'' [] [] d,
      Element ''enclosure'' [(''url'', u), (''length'', ''100''), (''type'', ''audio/mpeg'')]
        [] []] []"

definition example_feed :: "element list \<Rightarrow> element" where
  "example_feed items = Element ''rss'' [(''version'', ''2.0'')]
     [Element ''channel'' [] (Element ''title'' [] [] ''Example Show'' # items) []] []"

definition ep1 :: element where
  "ep1 = episode ''Ep 1'' ''abc123'' ''Mon, 02 Jan 2023 10:00:00 GMT''
     ''http://example.com/ep1.mp3''"

definition ep2 :: element where
  "ep2 = episode ''Ep 2'' ''def456'' ''Mon, 09 Jan 2023 10:00:00 GMT''
     ''http://example.com/ep2.mp3''"

definition one_item_xml :: bytes where
  \<open>one_item_xml = ''<rss version="2.0"><channel><title>Example Show</title>''
     @ ''<item><title>Ep 1</title><guid isPermaLink="false">abc123</guid>''
     @ ''<description>About</description><pubDate>Mon, 02 Jan 2023 10:00:00 GMT</pubDate>''
     @ ''<enclosure url="http://example.com/ep1.mp3" length="100" type="audio/mpeg"/></item>''
     @ ''</channel></rss>''\<close>

definition two_item_xml :: bytes where
  \<open>two_item_xml = ''<rss version="2.0"><channel><title>Example Show</title>''
     @ ''<item><title>Ep 1</title><guid isPermaLink="false">abc123</guid>''
     @ ''<description>About</description><pubDate>Mon, 02 Jan 2023 10:00:00 GMT</pubDate>''
     @ ''<enclosure url="http://example.com/ep1.mp3" length="100" type="audio/mpeg"/></item>''
     @ ''<item><title>Ep 2</title><guid isPermaLink="false">def456</guid>''
     @ ''<description>About</description><pubDate>Mon, 09 Jan 2023 10:00:00 GMT</pubDate>''
     @ ''<enclosure url="http://example.com/ep2.mp3" length="100" type="audio/mpeg"/></item>''
     @ ''</channel></rss>''\<close>

definition feed_response :: "bytes \<Rightarrow> response" where
  "feed_response body = \<lparr>status_code = 200, headers = [(''Content-Type'', ''text/xml'')],
     chunks = [body], interrupted = False\<rparr>"

definition mp3_response :: response where
  "mp3_response = \<lparr>status_code = 200, headers = [(''Content-Length'', ''100'')],
     chunks = [replicate 100 (CHR 0x00)], interrupted = False\<rparr>"

definition one_item_world :: world where
  "one_item_world = example_world
     [(''http://example.com/feed.xml'', feed_response one_item_xml),
      (''http://example.com/ep1.mp3'', mp3_response)]
     [(one_item_xml, example_feed [ep1])]"

definition two_item_world :: world where
  "two_item_world = example_world
     [(''http://example.com/feed.xml'', feed_response two_item_xml),
      (''http://example.com/ep1.mp3'', mp3_response),
      (''http://example.com/ep2.mp3'', mp3_response)]
     [(two_item_xml, example_feed [ep1, ep2])]"

text \<open>What reconciling an item leaves alone: the files, the log and the clock.\<close>

definition quiet :: "world \<Rightarrow> world \<Rightarrow> bool" where
  "quiet w w' = (files w' = files w \<and> stderr w' = stderr w \<and> timer_calls w' = timer_calls w)"

text \<open>The publication date of an item is text that \<open>strptime\<close> does not accept.\<close>

definition bad_date :: "string list \<Rightarrow> pyval \<Rightarrow> bool" where
  "bad_date tzs item =
     (case getitem item ''pubDate'' of
        Inr (PStr s) \<Rightarrow> strptime_str tzs s = None
      | _ \<Rightarrow> False)"

text \<open>A line of the feeds file that names a feed: not blank, not a comment.\<close>

definition feed_line :: "string \<Rightarrow> bool" where
  "feed_line raw = (strip raw \<noteq> [] \<and> \<not> startswith (strip raw) ''#'')"

definition bad_date_xml :: bytes where
  \<open>bad_date_xml = ''<rss version="2.0"><channel><title>Example Show</title>''
     @ ''<item><title>Ep 1</title><guid isPermaLink="false">abc123</guid>''
     @ ''<description>About</description><pubDate>2023-01-02 10:00:00</pubDate>''
     @ ''<enclosure url="http://example.com/ep1.mp3" length="100" type="audio/mpeg"/></item>''
     @ ''<item><title>Ep 2</title><guid isPermaLink="false">def456</guid>''
     @ ''<description>About</description><pubDate>Mon, 09 Jan 2023 10:00:00 GMT</pubDate>''
     @ ''<enclosure url="http://example.com/ep2.mp3" length="100" type="audio/mpeg"/></item>''
     @ ''</channel></rss>''\<close>

definition bad_date_world :: world where
  "bad_date_world = example_world
     [(''http://example.com/feed.xml'', feed_response bad_date_xml),
      (''http://example.com/ep1.mp3'', mp3_response),
      (''http://example.com/ep2.mp3'', mp3_response)]
     [(bad_date_xml, example_feed
         [episode ''Ep 1'' ''abc123'' ''2023-01-02 10:00:00'' ''http://example.com/ep1.mp3'',
          ep2])]"

text \<open>The two-item feed, where the enclosure of the second episode is answered with the
  status \<open>s\<close> and a body of nine bytes.\<close>

definition error_response :: "nat \<Rightarrow> response" where
  "error_response s = \<lparr>status_code = s, headers = [(''Content-Length'', ''9'')],
     chunks = [''Not Found''], interrupted = False\<rparr>"

definition status_world :: "nat \<Rightarrow> world" where
  "status_world s = example_world
     [(''http://example.com/feed.xml'', feed_response two_item_xml),
      (''http://example.com/ep1.mp3'', mp3_response),
      (''http://example.com/ep2.mp3'', error_response s)]
     [(two_item_xml, example_feed [ep1, ep2])]"

text \<open>The two-item feed on a disk that holds the file of the first episode already, as
  after an earlier run whose database was lost.\<close>

definition resumed_world :: world where
  "resumed_world = two_item_world
     \<lparr>files := [Path ''Example Show/2023-01-02 Ep 1.mp3'' \<mapsto> replicate 100 (CHR 0x00)],
      dirs := {Path ''Example Show''}\<rparr>"




section \<open>Idempotent upsert of a feed\<close>

lemma find_set_title:
  "find (\<lambda>r. feed_url r = Some url) (map (\<lambda>r. if feed_url r = Some url then r\<lparr>feed_title := t\<rparr> else r) rows)
   = map_option (\<lambda>r. r\<lparr>feed_title := t\<rparr>) (find (\<lambda>r. feed_url r = Some url) rows)"
  by (induction rows) auto

lemma filter_set_title:
  "length (filter (has_url url) (map (\<lambda>r. if feed_url r = Some url then r\<lparr>feed_title := t\<rparr> else r) rows))
   = length (filter (has_url url) rows)"
  by (induction rows) (auto simp: has_url_def)

lemma find_None_filter:
  "find (\<lambda>r. feed_url r = Some url) rows = None \<Longrightarrow> filter (has_url url) rows = []"
  by (induction rows) (auto simp: has_url_def split: if_splits)

lemma find_Some_filter:
  "find (\<lambda>r. feed_url r = Some url) rows = Some r \<Longrightarrow> 1 \<le> length (filter (has_url url) rows)"
  by (induction rows) (auto simp: has_url_def split: if_splits)

lemma find_append_new:
  "find P rows = None \<Longrightarrow> P r \<Longrightarrow> find P (rows @ [r]) = Some r"
  by (induction rows) (auto split: if_splits)

text \<open>
  C5.  Two calls of \<open>upsert_feed\<close> with the same URL (and titles that can be bound:
  text or \<^verbatim>\<open>None\<close>) both succeed and return the same feed identifier.  The second
  call creates no feed row: it rewrites the title of the rows of that URL in place, so
  the feed table keeps its length, and the number of rows with that URL after the two
  calls is what it was after the first, which is one if there was none before.
  Each call appends exactly one snapshot row, for that feed identifier and holding the
  document it was given.
\<close>

theorem upsert_feed_twice:
  assumes "bind_param ta = Inr ba" and "bind_param tb = Inr bb"
  shows "\<exists>fid c1 c2.
      upsert_feed na c url ta da = Inr (fid, c1)
    \<and> upsert_feed nb c1 url tb db = Inr (fid, c2)
    \<and> feed c2 = map (\<lambda>r. if feed_url r = Some url then r\<lparr>feed_title := bb\<rparr> else r) (feed c1)
    \<and> length (filter (has_url url) (feed c2)) = length (filter (has_url url) (feed c1))
    \<and> length (filter (has_url url) (feed c1)) = max 1 (length (filter (has_url url) (feed c)))
    \<and> list_all (\<lambda>r. has_url url r = (feed_title r = bb \<and> has_url url r)) (feed c2)
    \<and> raw_feed c1 = raw_feed c @
         [\<lparr>raw_feed_id = next_rowid (raw_feed_seq c) (map raw_feed_id (raw_feed c)),
           raw_feed_feed_id = fid, raw_date_added = na, data = da\<rparr>]
    \<and> raw_feed c2 = raw_feed c1 @
         [\<lparr>raw_feed_id = next_rowid (raw_feed_seq c1) (map raw_feed_id (raw_feed c1)),
           raw_feed_feed_id = fid, raw_date_added = nb, data = db\<rparr>]"
proof (cases "find (\<lambda>r. feed_url r = Some url) (feed c)")
  case None
  define fid where "fid = next_rowid (feed_seq c) (map feed_id (feed c))"
  define new where "new = \<lparr>feed_id = fid, feed_date_added = na, feed_url = Some url, feed_title = ba\<rparr>"
  define c1 where "c1 = insert_raw_feed na (c\<lparr>feed := feed c @ [new], feed_seq := fid\<rparr>) fid da"
  have first: "upsert_feed na c url ta da = Inr (fid, c1)"
    using None assms(1) by (simp add: upsert_feed_def Let_def fid_def new_def c1_def)
  have feed1: "feed c1 = feed c @ [new]"
    by (simp add: c1_def insert_raw_feed_def Let_def)
  have found: "find (\<lambda>r. feed_url r = Some url) (feed c1) = Some new"
    unfolding feed1 by (rule find_append_new [OF None]) (simp add: new_def)
  define c2 where "c2 = insert_raw_feed nb
      (c1\<lparr>feed := map (\<lambda>r. if feed_url r = Some url then r\<lparr>feed_title := bb\<rparr> else r) (feed c1)\<rparr>) fid db"
  have second: "upsert_feed nb c1 url tb db = Inr (fid, c2)"
    using found assms(2) by (simp add: upsert_feed_def Let_def c2_def new_def)
  have feed2: "feed c2 = map (\<lambda>r. if feed_url r = Some url then r\<lparr>feed_title := bb\<rparr> else r) (feed c1)"
    by (simp add: c2_def insert_raw_feed_def Let_def)
  have count: "length (filter (has_url url) (feed c1)) = max 1 (length (filter (has_url url) (feed c)))"
    using find_None_filter [OF None] by (simp add: feed1 new_def has_url_def)
  have titles: "list_all (\<lambda>r. has_url url r = (feed_title r = bb \<and> has_url url r)) (feed c2)"
    unfolding feed2 by (induction "feed c1") (auto simp: list_all_iff has_url_def)
  have same: "length (filter (has_url url) (feed c2)) = length (filter (has_url url) (feed c1))"
    unfolding feed2 by (rule filter_set_title)
  have raw1: "raw_feed c1 = raw_feed c @
         [\<lparr>raw_feed_id = next_rowid (raw_feed_seq c) (map raw_feed_id (raw_feed c)),
           raw_feed_feed_id = fid, raw_date_added = na, data = da\<rparr>]"
    by (simp add: c1_def insert_raw_feed_def Let_def)
  have raw2: "raw_feed c2 = raw_feed c1 @
         [\<lparr>raw_feed_id = next_rowid (raw_feed_seq c1) (map raw_feed_id (raw_feed c1)),
           raw_feed_feed_id = fid, raw_date_added = nb, data = db\<rparr>]"
    by (simp add: c2_def insert_raw_feed_def Let_def)
  show ?thesis
    using first second feed2 same count titles raw1 raw2 by blast
next
  case (Some r0)
  define c1 where "c1 = insert_raw_feed na
      (c\<lparr>feed := map (\<lambda>r. if feed_url r = Some url then r\<lparr>feed_title := ba\<rparr> else r) (feed c)\<rparr>)
      (feed_id r0) da"
  have first: "upsert_feed na c url ta da = Inr (feed_id r0, c1)"
    using Some assms(1) by (simp add: upsert_feed_def Let_def c1_def)
  have feed1: "feed c1 = map (\<lambda>r. if feed_url r = Some url then r\<lparr>feed_title := ba\<rparr> else r) (feed c)"
    by (simp add: c1_def insert_raw_feed_def Let_def)
  have found: "find (\<lambda>r. feed_url r = Some url) (feed c1) = Some (r0\<lparr>feed_title := ba\<rparr>)"
    unfolding feed1 by (simp add: find_set_title Some)
  define c2 where "c2 = insert_raw_feed nb
      (c1\<lparr>feed := map (\<lambda>r. if feed_url r = Some url then r\<lparr>feed_title := bb\<rparr> else r) (feed c1)\<rparr>)
      (feed_id r0) db"
  have second: "upsert_feed nb c1 url tb db = Inr (feed_id r0, c2)"
    using found assms(2) by (simp add: upsert_feed_def Let_def c2_def)
  have feed2: "feed c2 = map (\<lambda>r. if feed_url r = Some url then r\<lparr>feed_title := bb\<rparr> else r) (feed c1)"
    by (simp add: c2_def insert_raw_feed_def Let_def)
  have count: "length (filter (has_url url) (feed c1)) = max 1 (length (filter (has_url url) (feed c)))"
  proof -
    have "length (filter (has_url url) (feed c1)) = length (filter (has_url url) (feed c))"
      unfolding feed1 by (rule filter_set_title)
    with find_Some_filter [OF Some] show ?thesis by simp
  qed
  have titles: "list_all (\<lambda>r. has_url url r = (feed_title r = bb \<and> has_url url r)) (feed c2)"
    unfolding feed2 by (induction "feed c1") (auto simp: list_all_iff has_url_def)
  have same: "length (filter (has_url url) (feed c2)) = length (filter (has_url url) (feed c1))"
    unfolding feed2 by (rule filter_set_title)
  have raw1: "raw_feed c1 = raw_feed c @
         [\<lparr>raw_feed_id = next_rowid (raw_feed_seq c) (map raw_feed_id (raw_feed c)),
           raw_feed_feed_id = feed_id r0, raw_date_added = na, data = da\<rparr>]"
    by (simp add: c1_def insert_raw_feed_def Let_def)
  have raw2: "raw_feed c2 = raw_feed c1 @
         [\<lparr>raw_feed_id = next_rowid (raw_feed_seq c1) (map raw_feed_id (raw_feed c1)),
           raw_feed_feed_id = feed_id r0, raw_date_added = nb, data = db\<rparr>]"
    by (simp add: c2_def insert_raw_feed_def Let_def)
  show ?thesis
    using first second feed2 same count titles raw1 raw2 by blast
qed

theorem upsert_feed_twice_witness:
  "bind_param (PStr ''Example Show'') = Inr (Some ''Example Show'')
   \<and> bind_param (PStr ''Example Show!'') = Inr (Some ''Example Show!'')
   \<and> (\<exists>fid c1 c2.
      upsert_feed ''2023-01-02 10:00:00'' (new_database ingest_columns)
        ''http://example.com/feed.xml'' (PStr ''Example Show'') PNone = Inr (fid, c1)
    \<and> upsert_feed ''2023-01-03 10:00:00'' c1
        ''http://example.com/feed.xml'' (PStr ''Example Show!'') PNone = Inr (fid, c2)
    \<and> length (filter (has_url ''http://example.com/feed.xml'') (feed c2)) = 1
    \<and> list_all (\<lambda>r. feed_title r = Some ''Example Show!'') (feed c2)
    \<and> length (raw_feed c1) = 1 \<and> length (raw_feed c2) = 2)"
proof -
  have h1: "bind_param (PStr ''Example Show'') = Inr (Some ''Example Show'')"
    by simp
  have h2: "bind_param (PStr ''Example Show!'') = Inr (Some ''Example Show!'')"
    by simp
  obtain fid c1 c2 where
      r1: "upsert_feed ''2023-01-02 10:00:00'' (new_database ingest_columns)
             ''http://example.com/feed.xml'' (PStr ''Example Show'') PNone = Inr (fid, c1)"
    and r2: "upsert_feed ''2023-01-03 10:00:00'' c1
             ''http://example.com/feed.xml'' (PStr ''Example Show!'') PNone = Inr (fid, c2)"
    and same: "length (filter (has_url ''http://example.com/feed.xml'') (feed c2))
             = length (filter (has_url ''http://example.com/feed.xml'') (feed c1))"
    and one: "length (filter (has_url ''http://example.com/feed.xml'') (feed c1))
             = max 1 (length (filter (has_url ''http://example.com/feed.xml'')
                 (feed (new_database ingest_columns))))"
    using upsert_feed_twice [OF h1 h2, of "''2023-01-02 10:00:00''" "new_database ingest_columns"
        "''http://example.com/feed.xml''" PNone "''2023-01-03 10:00:00''" PNone]
    by blast
  have c1: "c1 = insert_raw_feed ''2023-01-02 10:00:00''
      ((new_database ingest_columns)\<lparr>feed := [\<lparr>feed_id = 1, feed_date_added = ''2023-01-02 10:00:00'',
          feed_url = Some ''http://example.com/feed.xml'', feed_title = Some ''Example Show''\<rparr>],
        feed_seq := 1\<rparr>) 1 PNone" and fid: "fid = 1"
    using r1 by (auto simp add: upsert_feed_def new_database_def next_rowid_def Let_def)
  have c2: "feed c2 = [\<lparr>feed_id = 1, feed_date_added = ''2023-01-02 10:00:00'',
          feed_url = Some ''http://example.com/feed.xml'', feed_title = Some ''Example Show!''\<rparr>]
        \<and> length (raw_feed c2) = 2"
    using r2 unfolding c1 fid
    by (auto simp add: upsert_feed_def new_database_def next_rowid_def insert_raw_feed_def Let_def)
  have "length (raw_feed c1) = 1"
    unfolding c1 by (simp add: new_database_def insert_raw_feed_def Let_def)
  with h1 h2 r1 r2 same one c2 show ?thesis
    by (auto simp add: new_database_def)
qed

section \<open>Idempotent reconciliation of an episode\<close>

lemma fold_max_ge: "x \<in> set ids \<Longrightarrow> x \<le> fold max ids (s::nat)"
proof (induction ids arbitrary: s)
  case Nil
  then show ?case by simp
next
  case (Cons a ids)
  have mono: "\<And>t. t \<le> fold max ids (t::nat)"
  proof -
    fix t :: nat
    show "t \<le> fold max ids t"
      by (induction ids arbitrary: t) (auto intro: order_trans [OF max.cobounded2])
  qed
  show ?case
  proof (cases "x = a")
    case True
    have "a \<le> max a s" by simp
    also have "\<dots> \<le> fold max ids (max a s)" by (rule mono)
    finally show ?thesis using True by simp
  next
    case False
    with Cons show ?thesis by simp
  qed
qed

lemma next_rowid_fresh: "next_rowid s ids \<notin> set ids"
proof
  assume "next_rowid s ids \<in> set ids"
  from fold_max_ge [OF this, of s] show False
    by (simp add: next_rowid_def)
qed

lemma bind_params_length: "bind_params vs = Inr xs \<Longrightarrow> length xs = length vs"
  by (induction vs arbitrary: xs) (auto split: sum.splits)

lemma filter_map_same:
  "(\<And>r. r \<in> set rows \<Longrightarrow> P (f r) = P r) \<Longrightarrow> filter P (map f rows) = map f (filter P rows)"
  by (induction rows) auto

lemma find_filter_Nil: "find P rows = None \<Longrightarrow> filter P rows = []"
  by (induction rows) (auto split: if_splits)

lemma find_Some_mem: "find P rows = Some r \<Longrightarrow> r \<in> set rows \<and> P r"
  by (induction rows) (auto split: if_splits)

lemma filter_single:
  "length (filter P rows) \<le> 1 \<Longrightarrow> r \<in> set rows \<Longrightarrow> P r \<Longrightarrow> filter P rows = [r]"
proof -
  assume a: "length (filter P rows) \<le> 1" and b: "r \<in> set rows" and c: "P r"
  from b c have "r \<in> set (filter P rows)" by simp
  with a show ?thesis
    by (cases "filter P rows") (auto simp: Suc_le_eq)
qed

lemma key_unique:
  "distinct (map k rows) \<Longrightarrow> r \<in> set rows \<Longrightarrow> r' \<in> set rows \<Longrightarrow> k r = k r' \<Longrightarrow> r = r'"
  by (auto simp: distinct_map dest: inj_onD)

lemma set_metadata_8:
  "length xs = 8 \<Longrightarrow> row_metadata (set_metadata g xs r) = stored_metadata xs
     \<and> guid (set_metadata g xs r) = g
     \<and> item_feed_id (set_metadata g xs r) = item_feed_id r
     \<and> feed_item_id (set_metadata g xs r) = feed_item_id r
     \<and> download_path (set_metadata g xs r) = download_path r"
  by (auto simp: row_metadata_def length_Suc_conv numeral_eq_Suc)

lemma set_metadata_id: "feed_item_id (set_metadata g xs r) = feed_item_id r"
  by (induction g xs r rule: set_metadata.induct) auto

lemma has_columns_ingest:
  "feed_item_columns c = ingest_columns \<Longrightarrow>
     has_columns c [''feed_item_id'', ''feed_id'', ''guid'']
   \<and> has_columns c [''feed_id'', ''guid'', ''date_added'', ''title'',
                     ''description'', ''pub_date'', ''itunes_duration'', ''enclosure_url'',
                     ''enclosure_length'', ''enclosure_type'', ''itunes_season'',
                     ''feed_item_id'']
   \<and> has_columns c [''guid'', ''title'', ''description'', ''pub_date'',
                     ''itunes_duration'', ''enclosure_url'', ''enclosure_length'',
                     ''enclosure_type'', ''itunes_season'', ''feed_item_id'']
   \<and> has_columns c [''download_path'', ''feed_item_id'']"
  by (simp add: has_columns_def ingest_columns_def)

lemma upsert_feed_item_step:
  assumes cols: "feed_item_columns c = ingest_columns"
    and pk: "distinct (map feed_item_id (feed_item c))"
    and one: "length (filter (is_pair fid g) (feed_item c)) \<le> 1"
    and bound: "bind_params (metadata_params m) = Inr xs"
  shows "\<exists>iid c' r. upsert_feed_item now c fid (PStr g) m = Inr (iid, c')
    \<and> feed_item_columns c' = ingest_columns
    \<and> distinct (map feed_item_id (feed_item c'))
    \<and> filter (is_pair fid g) (feed_item c') = [r]
    \<and> feed_item_id r = iid
    \<and> row_metadata r = stored_metadata xs
    \<and> download_path r = stored_path c fid g"
proof -
  have len: "length xs = 8"
    using bind_params_length [OF bound] by (simp add: metadata_params_def)
  have same_find: "find (\<lambda>r. item_feed_id r = fid \<and> guid r = Some g) (feed_item c)
      = find (is_pair fid g) (feed_item c)"
    by (simp add: is_pair_def [abs_def])
  note hc = has_columns_ingest [OF cols]
  show ?thesis
  proof (cases "find (is_pair fid g) (feed_item c)")
    case None
    define iid where "iid = next_rowid (feed_item_seq c) (map feed_item_id (feed_item c))"
    define new where "new = set_metadata (Some g) xs (blank_item iid fid now)"
    define c' where "c' = c\<lparr>feed_item := feed_item c @ [new], feed_item_seq := iid\<rparr>"
    have res: "upsert_feed_item now c fid (PStr g) m = Inr (iid, c')"
      using hc None bound
      by (simp add: upsert_feed_item_def same_find Let_def iid_def new_def c'_def)
    have newp: "is_pair fid g new" "feed_item_id new = iid" "row_metadata new = stored_metadata xs"
      "download_path new = None"
      using set_metadata_8 [OF len, of "Some g" "blank_item iid fid now"]
      by (simp_all add: new_def is_pair_def blank_item_def)
    have fresh: "iid \<notin> set (map feed_item_id (feed_item c))"
      unfolding iid_def by (rule next_rowid_fresh)
    have d: "distinct (map feed_item_id (feed_item c'))"
      using pk fresh newp(2) by (simp add: c'_def)
    have f: "filter (is_pair fid g) (feed_item c') = [new]"
      using find_filter_Nil [OF None] newp(1) by (simp add: c'_def)
    have sp: "stored_path c fid g = None"
      by (simp add: stored_path_def None)
    have "feed_item_columns c' = ingest_columns"
      using cols by (simp add: c'_def)
    with res d f newp sp show ?thesis by auto
  next
    case (Some r0)
    define upd where "upd = (\<lambda>r. if feed_item_id r = feed_item_id r0
                                  then set_metadata (Some g) xs r else r)"
    define c' where "c' = c\<lparr>feed_item := map upd (feed_item c)\<rparr>"
    have res: "upsert_feed_item now c fid (PStr g) m = Inr (feed_item_id r0, c')"
      using hc Some bound
      by (simp add: upsert_feed_item_def same_find Let_def upd_def c'_def)
    from find_Some_mem [OF Some] have r0: "r0 \<in> set (feed_item c)" "is_pair fid g r0"
      by simp_all
    have single: "filter (is_pair fid g) (feed_item c) = [r0]"
      by (rule filter_single [OF one r0])
    have upd_id: "\<And>r. feed_item_id (upd r) = feed_item_id r"
      by (simp add: upd_def set_metadata_id)
    have d: "distinct (map feed_item_id (feed_item c'))"
      using pk by (simp add: c'_def o_def upd_id)
    have upd_r0: "upd r0 = set_metadata (Some g) xs r0"
      by (simp add: upd_def)
    have r0': "is_pair fid g (upd r0)" "row_metadata (upd r0) = stored_metadata xs"
      "download_path (upd r0) = download_path r0" "feed_item_id (upd r0) = feed_item_id r0"
      using set_metadata_8 [OF len, of "Some g" r0] r0(2)
      by (simp_all add: upd_r0 is_pair_def)
    have keep: "\<And>r. r \<in> set (feed_item c) \<Longrightarrow> is_pair fid g (upd r) = is_pair fid g r"
    proof -
      fix r assume r: "r \<in> set (feed_item c)"
      show "is_pair fid g (upd r) = is_pair fid g r"
      proof (cases "feed_item_id r = feed_item_id r0")
        case True
        then have "r = r0" using key_unique [OF pk r r0(1)] by simp
        then show ?thesis using r0'(1) r0(2) by simp
      next
        case False
        then show ?thesis by (simp add: upd_def)
      qed
    qed
    have f: "filter (is_pair fid g) (feed_item c') = [upd r0]"
      using filter_map_same [of "feed_item c" "is_pair fid g" upd, OF keep] single
      by (simp add: c'_def)
    have sp: "stored_path c fid g = download_path r0"
      by (simp add: stored_path_def Some)
    have "feed_item_columns c' = ingest_columns"
      using cols by (simp add: c'_def)
    with res d f r0' sp show ?thesis by auto
  qed
qed

lemma stored_path_single:
  "filter (is_pair fid g) (feed_item c) = [r] \<Longrightarrow> stored_path c fid g = download_path r"
proof -
  assume a: "filter (is_pair fid g) (feed_item c) = [r]"
  have "\<And>rows. filter (is_pair fid g) rows = [r] \<Longrightarrow> find (is_pair fid g) rows = Some r"
  proof -
    fix rows show "filter (is_pair fid g) rows = [r] \<Longrightarrow> find (is_pair fid g) rows = Some r"
      by (induction rows) (auto split: if_splits)
  qed
  from this [OF a] show ?thesis by (simp add: stored_path_def)
qed

lemma calls_one_row:
  assumes cols: "feed_item_columns c = ingest_columns"
    and pk: "distinct (map feed_item_id (feed_item c))"
    and one: "length (filter (is_pair fid g) (feed_item c)) \<le> 1"
    and bound: "map (\<lambda>nm. bind_params (metadata_params (snd nm))) calls = map Inr xss"
    and ne: "calls \<noteq> []"
  shows "\<exists>c' r. upsert_feed_item_calls c fid (PStr g) calls = Inr c'
    \<and> filter (is_pair fid g) (feed_item c') = [r]
    \<and> row_metadata r = stored_metadata (last xss)
    \<and> download_path r = stored_path c fid g"
  using assms
proof (induction calls arbitrary: c xss)
  case Nil
  then show ?case by simp
next
  case (Cons nm calls)
  from Cons.prems(4) obtain xs xss' where xss: "xss = xs # xss'"
    and b: "bind_params (metadata_params (snd nm)) = Inr xs"
    and bs: "map (\<lambda>nm. bind_params (metadata_params (snd nm))) calls = map Inr xss'"
    by (cases xss) auto
  from upsert_feed_item_step [OF Cons.prems(1-3) b, of "fst nm"]
  obtain iid c1 r1 where step: "upsert_feed_item (fst nm) c fid (PStr g) (snd nm) = Inr (iid, c1)"
    and cols1: "feed_item_columns c1 = ingest_columns"
    and pk1: "distinct (map feed_item_id (feed_item c1))"
    and f1: "filter (is_pair fid g) (feed_item c1) = [r1]"
    and m1: "row_metadata r1 = stored_metadata xs"
    and p1: "download_path r1 = stored_path c fid g"
    by blast
  show ?case
  proof (cases "calls = []")
    case True
    then have "xss' = []" using bs by simp
    with True step f1 m1 p1 xss show ?thesis by simp
  next
    case False
    have one1: "length (filter (is_pair fid g) (feed_item c1)) \<le> 1"
      by (simp add: f1)
    from Cons.IH [OF cols1 pk1 one1 bs False]
    obtain c' r where "upsert_feed_item_calls c1 fid (PStr g) calls = Inr c'"
      and "filter (is_pair fid g) (feed_item c') = [r]"
      and "row_metadata r = stored_metadata (last xss')"
      and "download_path r = stored_path c1 fid g"
      by blast
    moreover have "xss' \<noteq> []" using bs False by auto
    moreover note stored_path_single [OF f1] p1 step xss
    ultimately show ?thesis by simp
  qed
qed

lemma affinity_examples:
  "integer_affinity (Some ''0100'') = SqlInteger 100"
  "integer_affinity (Some ''03'') = SqlInteger 3"
  "integer_affinity (Some ''100'') = SqlInteger 100"
  "integer_affinity None = SqlNull"
  by (simp_all add: integer_affinity_def scan_numeric_def is_numeric_def is_negative_def
      drop_sign_def sql_space_def isdigit_def digits_val_def digit_val_def Let_def)

lemma padded_calls:
  "\<exists>c' r. upsert_feed_item_calls downloaded_db 1 (PStr ''abc123'')
        [(''2023-01-03 12:00:00'', example_metadata ''Ep 1''),
         (''2023-01-04 12:00:00'', padded_metadata ''Ep 1'')] = Inr c'
    \<and> filter (is_pair 1 ''abc123'') (feed_item c') = [r]
    \<and> row_metadata r = [SqlText ''Ep 1'', SqlText ''About'', SqlText ''2023-01-02T10:00:00'',
         SqlNull, SqlText ''http://example.com/ep1.mp3'', SqlInteger 100,
         SqlText ''audio/mpeg'', SqlInteger 3]
    \<and> download_path r = Some ''Example Show/2023-01-02 Ep 1.mp3''"
proof -
  have cols: "feed_item_columns downloaded_db = ingest_columns"
    by (simp add: downloaded_db_def new_database_def)
  have pk: "distinct (map feed_item_id (feed_item downloaded_db))"
    by (simp add: downloaded_db_def)
  have one: "length (filter (is_pair 1 ''abc123'') (feed_item downloaded_db)) \<le> 1"
    by (simp add: downloaded_db_def)
  have bound: "map (\<lambda>nm. bind_params (metadata_params (snd nm)))
        [(''2023-01-03 12:00:00'', example_metadata ''Ep 1''),
         (''2023-01-04 12:00:00'', padded_metadata ''Ep 1'')]
      = map Inr
        [[Some ''Ep 1'', Some ''About'', Some ''2023-01-02T10:00:00'',
          None, Some ''http://example.com/ep1.mp3'', Some ''100'', Some ''audio/mpeg'', None],
         [Some ''Ep 1'', Some ''About'', Some ''2023-01-02T10:00:00'',
          None, Some ''http://example.com/ep1.mp3'', Some ''0100'', Some ''audio/mpeg'',
          Some ''03'']]"
    by (simp add: example_metadata_def padded_metadata_def metadata_params_def)
  have sp: "stored_path downloaded_db 1 ''abc123'' = Some ''Example Show/2023-01-02 Ep 1.mp3''"
    by (simp add: stored_path_def downloaded_db_def is_pair_def blank_item_def)
  from calls_one_row [OF cols pk one bound] sp show ?thesis
    by (simp add: affinity_examples text_value_def)
qed

text \<open>
  C6 as it is stated fails on the \<^verbatim>\<open>INTEGER\<close> columns: the call binds the length
  \<^verbatim>\<open>0100\<close> and the season \<^verbatim>\<open>03\<close> (the text of the feed's attributes), and the row
  then holds the integers 100 and 3, not the arguments.
\<close>

theorem upsert_feed_item_calls_counterexample:
  "bind_params (metadata_params (padded_metadata ''Ep 1''))
     = Inr [Some ''Ep 1'', Some ''About'', Some ''2023-01-02T10:00:00'', None,
            Some ''http://example.com/ep1.mp3'', Some ''0100'', Some ''audio/mpeg'', Some ''03'']
   \<and> (\<exists>c' r. upsert_feed_item_calls downloaded_db 1 (PStr ''abc123'')
        [(''2023-01-03 12:00:00'', example_metadata ''Ep 1''),
         (''2023-01-04 12:00:00'', padded_metadata ''Ep 1'')] = Inr c'
      \<and> filter (is_pair 1 ''abc123'') (feed_item c') = [r]
      \<and> enclosure_length r = SqlInteger 100 \<and> itunes_season r = SqlInteger 3
      \<and> row_metadata r \<noteq> map text_value
            [Some ''Ep 1'', Some ''About'', Some ''2023-01-02T10:00:00'', None,
             Some ''http://example.com/ep1.mp3'', Some ''0100'', Some ''audio/mpeg'',
             Some ''03''])"
proof -
  have b: "bind_params (metadata_params (padded_metadata ''Ep 1''))
     = Inr [Some ''Ep 1'', Some ''About'', Some ''2023-01-02T10:00:00'', None,
            Some ''http://example.com/ep1.mp3'', Some ''0100'', Some ''audio/mpeg'', Some ''03'']"
    by (simp add: example_metadata_def padded_metadata_def metadata_params_def)
  from padded_calls obtain c' r where
      "upsert_feed_item_calls downloaded_db 1 (PStr ''abc123'')
        [(''2023-01-03 12:00:00'', example_metadata ''Ep 1''),
         (''2023-01-04 12:00:00'', padded_metadata ''Ep 1'')] = Inr c'"
    and "filter (is_pair 1 ''abc123'') (feed_item c') = [r]"
    and m: "row_metadata r = [SqlText ''Ep 1'', SqlText ''About'', SqlText ''2023-01-02T10:00:00'',
         SqlNull, SqlText ''http://example.com/ep1.mp3'', SqlInteger 100,
         SqlText ''audio/mpeg'', SqlInteger 3]"
    by blast
  moreover from m have "enclosure_length r = SqlInteger 100 \<and> itunes_season r = SqlInteger 3"
    by (simp add: row_metadata_def)
  moreover from m have "row_metadata r \<noteq> map text_value
            [Some ''Ep 1'', Some ''About'', Some ''2023-01-02T10:00:00'', None,
             Some ''http://example.com/ep1.mp3'', Some ''0100'', Some ''audio/mpeg'',
             Some ''03'']"
    by (simp add: text_value_def)
  ultimately show ?thesis using b by blast
qed

text \<open>
  C6, as the code has it.  Take a database with the ingestion program's columns and
  distinct row identifiers (the primary key), which holds at most one row for the pair of
  feed identifier and GUID (a string).  Any non-empty sequence of calls of
  \<open>upsert_feed_item\<close> for that pair, each with metadata that can be bound, succeeds and
  leaves exactly one row for the pair.  Its metadata columns hold what the last call bound,
  as the columns store it: the text columns the argument itself, the \<^verbatim>\<open>INTEGER\<close>
  columns \<open>enclosure_length\<close> and \<open>itunes_season\<close> the number that numeric text reads as.
  Its \<open>download_path\<close> is what the database held for the pair before the first call
  (\<^verbatim>\<open>NULL\<close> if it held no row).
\<close>

theorem upsert_feed_item_calls_one_row:
  assumes cols: "feed_item_columns c = ingest_columns"
    and pk: "distinct (map feed_item_id (feed_item c))"
    and one: "length (filter (is_pair fid g) (feed_item c)) \<le> 1"
    and bound: "map (\<lambda>nm. bind_params (metadata_params (snd nm))) calls = map Inr xss"
    and ne: "calls \<noteq> []"
  shows "\<exists>c' r. upsert_feed_item_calls c fid (PStr g) calls = Inr c'
    \<and> filter (is_pair fid g) (feed_item c') = [r]
    \<and> row_metadata r = stored_metadata (last xss)
    \<and> download_path r = stored_path c fid g"
  using assms by (rule calls_one_row)

theorem upsert_feed_item_calls_one_row_witness:
  "\<exists>c' r. upsert_feed_item_calls downloaded_db 1 (PStr ''abc123'')
        [(''2023-01-03 12:00:00'', example_metadata ''Ep 1''),
         (''2023-01-04 12:00:00'', padded_metadata ''Ep 1 (remastered)'')] = Inr c'
    \<and> filter (is_pair 1 ''abc123'') (feed_item c') = [r]
    \<and> row_metadata r = [SqlText ''Ep 1 (remastered)'', SqlText ''About'',
         SqlText ''2023-01-02T10:00:00'', SqlNull, SqlText ''http://example.com/ep1.mp3'',
         SqlInteger 100, SqlText ''audio/mpeg'', SqlInteger 3]
    \<and> download_path r = Some ''Example Show/2023-01-02 Ep 1.mp3''"
proof -
  have cols: "feed_item_columns downloaded_db = ingest_columns"
    by (simp add: downloaded_db_def new_database_def)
  have pk: "distinct (map feed_item_id (feed_item downloaded_db))"
    by (simp add: downloaded_db_def)
  have one: "length (filter (is_pair 1 ''abc123'') (feed_item downloaded_db)) \<le> 1"
    by (simp add: downloaded_db_def)
  have bound: "map (\<lambda>nm. bind_params (metadata_params (snd nm)))
        [(''2023-01-03 12:00:00'', example_metadata ''Ep 1''),
         (''2023-01-04 12:00:00'', padded_metadata ''Ep 1 (remastered)'')]
      = map Inr
        [[Some ''Ep 1'', Some ''About'', Some ''2023-01-02T10:00:00'',
          None, Some ''http://example.com/ep1.mp3'', Some ''100'', Some ''audio/mpeg'', None],
         [Some ''Ep 1 (remastered)'', Some ''About'', Some ''2023-01-02T10:00:00'',
          None, Some ''http://example.com/ep1.mp3'', Some ''0100'', Some ''audio/mpeg'',
          Some ''03'']]"
    by (simp add: example_metadata_def padded_metadata_def metadata_params_def)
  have sp: "stored_path downloaded_db 1 ''abc123'' = Some ''Example Show/2023-01-02 Ep 1.mp3''"
    by (simp add: stored_path_def downloaded_db_def is_pair_def blank_item_def)
  from upsert_feed_item_calls_one_row [OF cols pk one bound] sp show ?thesis
    by (simp add: affinity_examples text_value_def)
qed

section \<open>The two schemas of feed_item\<close>

text \<open>
  C10.  When the query tool creates the database, \<open>feed_item\<close> has no \<open>description\<close>
  column; when the ingestion program creates it, it has one.  On every database whose
  \<open>feed_item\<close> has the query tool's columns, \<open>upsert_feed_item\<close> never succeeds (its
  statements name the missing column), so no description is ever stored, and
  \<open>list_items\<close> fails with \<^verbatim>\<open>OperationalError\<close> whatever its filters are, so its
  description filter matches no row.
\<close>

theorem feedcli_schema_lacks_description:
  assumes "db_file w = None"
    and "feed_item_columns c = feed_item_columns (con (feedcli_get_database w))"
  shows "''description'' \<notin> set (feed_item_columns (con (feedcli_get_database w)))
    \<and> ''description'' \<in> set (feed_item_columns (con (get_database w)))
    \<and> isl (upsert_feed_item now c fid g m)
    \<and> list_items c f ti de = Inl OperationalError"
proof -
  have cli: "feed_item_columns (con (feedcli_get_database w)) = feedcli_columns"
    using assms(1) by (simp add: feedcli_get_database_def new_database_def)
  have ing: "feed_item_columns (con (get_database w)) = ingest_columns"
    using assms(1) by (simp add: get_database_def new_database_def)
  have cols: "feed_item_columns c = feedcli_columns"
    using assms(2) cli by simp
  have no: "''description'' \<notin> set feedcli_columns"
    by (simp add: feedcli_columns_def)
  have yes: "''description'' \<in> set ingest_columns"
    by (simp add: ingest_columns_def)
  have ins: "\<not> has_columns c [''feed_id'', ''guid'', ''date_added'', ''title'',
                     ''description'', ''pub_date'', ''itunes_duration'', ''enclosure_url'',
                     ''enclosure_length'', ''enclosure_type'', ''itunes_season'',
                     ''feed_item_id'']"
    using no by (simp add: has_columns_def cols)
  have upd: "\<not> has_columns c [''guid'', ''title'', ''description'', ''pub_date'',
                     ''itunes_duration'', ''enclosure_url'', ''enclosure_length'',
                     ''enclosure_type'', ''itunes_season'', ''feed_item_id'']"
    using no by (simp add: has_columns_def cols)
  have sel: "\<not> has_columns c [''feed_id'', ''title'', ''description'', ''pub_date'']"
    using no by (simp add: has_columns_def cols)
  have "isl (upsert_feed_item now c fid g m)"
    unfolding upsert_feed_item_def using ins upd
    by (simp split: sum.splits option.splits)
  moreover have "list_items c f ti de = Inl OperationalError"
    using sel by (simp add: list_items_def)
  ultimately show ?thesis
    using cli ing no yes by simp
qed

theorem feedcli_schema_lacks_description_witness:
  "db_file (example_world [] []) = None
   \<and> ''description'' \<notin> set (feed_item_columns (con (feedcli_get_database (example_world [] []))))
   \<and> ''description'' \<in> set (feed_item_columns (con (get_database (example_world [] []))))
   \<and> isl (upsert_feed_item ''2023-01-10 00:00:00'' (con (feedcli_get_database (example_world [] [])))
        1 (PStr ''abc123'') (example_metadata ''Ep 1''))
   \<and> list_items (con (feedcli_get_database (example_world [] []))) None None (Some ''About'')
       = Inl OperationalError"
proof -
  have h: "db_file (example_world [] []) = None"
    by (simp add: example_world_def)
  from feedcli_schema_lacks_description [OF h refl] h show ?thesis
    by blast
qed

section \<open>Frame lemmas\<close>

lemma io_invI: "(\<And>w r w'. m w = (r, w') \<Longrightarrow> R w w') \<Longrightarrow> io_inv R m"
  by (auto simp: io_inv_def) (metis prod.collapse)

lemma io_invD: "io_inv R m \<Longrightarrow> m w = (r, w') \<Longrightarrow> R w w'"
  by (auto simp: io_inv_def dest: spec [of _ w])

lemma io_inv_bind:
  assumes trans: "\<And>a b c. R a b \<Longrightarrow> R b c \<Longrightarrow> R a c"
    and m: "io_inv R m" and f: "\<And>a. io_inv R (f a)"
  shows "io_inv R (io_bind m f)"
proof (rule io_invI)
  fix w r w' assume a: "io_bind m f w = (r, w')"
  obtain r1 w1 where m1: "m w = (r1, w1)" by (cases "m w")
  have R1: "R w w1" by (rule io_invD [OF m m1])
  show "R w w'"
  proof (cases r1)
    case (Inl e)
    with a m1 have "w' = w1" by (simp add: io_bind_def)
    with R1 show ?thesis by simp
  next
    case (Inr x)
    with a m1 have "f x w1 = (r, w')" by (simp add: io_bind_def)
    from io_invD [OF f this] R1 show ?thesis by (rule trans [rotated])
  qed
qed

lemma io_inv_pure:
  assumes refl: "\<And>w. R w w"
  shows "io_inv R (io_return a)" and "io_inv R (io_raise e)" and "io_inv R (io_lift r)"
    and "io_inv R (\<lambda>w. (g w, w))"
  by (simp_all add: io_inv_def io_return_def io_raise_def io_lift_def refl)

lemma step_refl: "step w w"
  by (simp add: step_def)

lemma step_trans: "step a b \<Longrightarrow> step b c \<Longrightarrow> step a c"
  by (auto simp: step_def)

lemmas step_bind = io_inv_bind [of step, OF step_trans]

lemmas step_pure = io_inv_pure [of step, OF step_refl]

lemma step_sql:
  assumes "\<And>c a c'. f c = Inr (a, c') \<Longrightarrow> feed_item_columns c' = feed_item_columns c"
  shows "io_inv step (io_sql f)"
  using assms
  by (auto simp: io_inv_def io_sql_def step_def path_exists_def is_dir_def is_file_def
      split: sum.splits)

lemma step_sql_now:
  assumes "\<And>n c a c'. f n c = Inr (a, c') \<Longrightarrow> feed_item_columns c' = feed_item_columns c"
  shows "io_inv step (\<lambda>w. io_sql (f (current_timestamp w)) w)"
  using assms
  by (auto simp: io_inv_def io_sql_def step_def path_exists_def is_dir_def is_file_def
      split: sum.splits)

lemma step_log: "io_inv step (log l)"
  by (simp add: io_inv_def log_def step_def path_exists_def is_dir_def is_file_def)

lemma step_time: "io_inv step time_time"
  by (simp add: io_inv_def time_time_def step_def path_exists_def is_dir_def is_file_def)

lemma step_os_mkdir: "io_inv step (os_mkdir p)"
  by (auto simp: io_inv_def os_mkdir_def step_def path_exists_def is_dir_def is_file_def)

lemma step_mkdir: "io_inv step (mkdir e p)"
proof (rule io_invI)
  fix w r w' assume a: "mkdir e p w = (r, w')"
  obtain r1 w1 where o: "os_mkdir p w = (r1, w1)" by (cases "os_mkdir p w")
  from io_invD [OF step_os_mkdir o] have "step w w1" .
  with a o show "step w w'"
    by (cases r1) (auto simp: mkdir_def step_refl split: if_splits)
qed

lemma step_mkdir_parents: "io_inv step (mkdir_parents e p)"
proof -
  have "step w (snd (mkdir_parents e p w))" for w
  proof (induction e p w rule: mkdir_parents.induct)
    case (1 exist_ok p w)
    obtain r1 w1 where o: "os_mkdir p w = (r1, w1)" by (cases "os_mkdir p w")
    have s1: "step w w1" by (rule io_invD [OF step_os_mkdir o])
    show ?case
    proof (cases r1)
      case (Inr u)
      with o s1 show ?thesis by (simp add: mkdir_parents.simps [of exist_ok p w])
    next
      case (Inl err)
      show ?thesis
      proof (cases "err = FileNotFoundError \<and> parent p \<noteq> p")
        case False
        with o Inl show ?thesis
          by (auto simp: mkdir_parents.simps [of exist_ok p w] step_refl)
      next
        case True
        obtain r2 w2 where rec: "mkdir_parents True (parent p) w = (r2, w2)"
          by (cases "mkdir_parents True (parent p) w")
        have s2: "step w w2"
          using "1.IH" o Inl True rec by auto
        show ?thesis
        proof (cases r2)
          case (Inl e2)
          with o \<open>r1 = Inl err\<close> True rec s2 show ?thesis
            by (simp add: mkdir_parents.simps [of exist_ok p w])
        next
          case (Inr u)
          obtain r3 w3 where m3: "mkdir exist_ok p w2 = (r3, w3)"
            by (cases "mkdir exist_ok p w2")
          from io_invD [OF step_mkdir m3] s2 have "step w w3"
            by (rule step_trans [rotated])
          with o \<open>r1 = Inl err\<close> True rec Inr m3 show ?thesis
            by (simp add: mkdir_parents.simps [of exist_ok p w])
        qed
      qed
    qed
  qed
  then show ?thesis by (simp add: io_inv_def)
qed

lemma step_reads:
  "io_inv step (open_read name)" "io_inv step (requests_get url)"
  "io_inv step (requests_get_stream v)"
proof -
  show "io_inv step (open_read name)"
    by (auto simp: io_inv_def open_read_def step_refl split: option.splits)
  show "io_inv step (requests_get url)"
    by (auto simp: io_inv_def requests_get_def step_refl split: option.splits)
  show "io_inv step (requests_get_stream v)"
    by (cases v) (auto simp: io_inv_def io_raise_def step_refl split: option.splits)
qed

lemma step_open_wb: "io_inv step (open_wb p)"
  by (auto simp: io_inv_def open_wb_def step_def path_exists_def is_dir_def is_file_def)

lemma step_file_write: "io_inv step (file_write p chunk)"
  by (auto simp: io_inv_def file_write_def step_def path_exists_def is_dir_def is_file_def)

lemma step_get_feed_xml: "io_inv step (get_feed_xml url)"
  unfolding get_feed_xml_def
  by (auto intro!: step_bind step_reads step_pure)

lemma step_log_progress: "io_inv step (log_progress n e t t0)"
  unfolding log_progress_def by (auto intro: step_pure step_log)

lemma step_write_chunks: "io_inv step (write_chunks f e t0 b cs st)"
proof (induction cs arbitrary: st)
  case Nil
  show ?case by (auto intro: step_pure)
next
  case (Cons c cs)
  show ?case
    unfolding write_chunks.simps
    by (intro step_bind step_file_write step_time step_log_progress Cons.IH)
qed

lemma update_download_path_columns:
  "update_download_path c p iid = Inr c' \<Longrightarrow> feed_item_columns c' = feed_item_columns c"
  by (auto simp: update_download_path_def split: if_splits)

lemma upsert_feed_item_columns:
  "upsert_feed_item now c fid g m = Inr (a, c') \<Longrightarrow> feed_item_columns c' = feed_item_columns c"
  by (auto simp: upsert_feed_item_def Let_def split: if_splits sum.splits option.splits)

lemma upsert_feed_columns:
  "upsert_feed now c url t d = Inr (a, c') \<Longrightarrow> feed_item_columns c' = feed_item_columns c"
  by (auto simp: upsert_feed_def insert_raw_feed_def Let_def split: sum.splits option.splits)

lemma map_sum_eq_Inr: "map_sum f g x = Inr y \<Longrightarrow> \<exists>b. x = Inr b \<and> y = g b"
  by (cases x) auto

lemma step_download: "io_inv step (download f url iid)"
  unfolding download_def
  by (intro step_bind step_log step_reads step_pure step_time step_open_wb step_write_chunks
      step_log_progress step_sql)
    (auto dest!: map_sum_eq_Inr dest: update_download_path_columns)

lemma step_item_dir: "io_inv step (item_dir feed_dir item)"
  unfolding item_dir_def
  by (auto intro!: step_bind step_pure step_mkdir)

lemma step_reconcile_item: "io_inv step (reconcile_item fid feed_dir item)"
  unfolding reconcile_item_def
  by (intro step_bind step_pure step_item_dir step_sql_now step_sql)
    (auto dest!: map_sum_eq_Inr dest: upsert_feed_item_columns)

lemma step_process_item: "io_inv step (process_item fid feed_dir item)"
  unfolding process_item_def
  by (auto intro!: step_bind step_pure step_reconcile_item step_download)

lemma step_process_items: "io_inv step (process_items fid feed_dir items)"
  by (induction items) (auto intro!: step_bind step_pure step_process_item)

lemma step_open_feed: "io_inv step (open_feed url)"
  unfolding open_feed_def
  by (intro step_bind step_pure step_log step_get_feed_xml step_sql_now step_mkdir_parents)
    (auto dest: upsert_feed_columns)

lemma step_process_one_feed: "io_inv step (process_one_feed url)"
  unfolding process_one_feed_def
  by (intro step_bind step_open_feed step_process_items)

section \<open>Evaluation on examples\<close>

text \<open>Concrete runs are evaluated by the simplifier with the definitions below; the
  weak congruence rules make it evaluate what a \<open>case\<close> or a bind inspects before it
  looks at the branches.\<close>

lemma bind_weak_cong: "x = y \<Longrightarrow> Option.bind x f = Option.bind y f"
  by simp

lemma sum_bind_weak_cong: "x = y \<Longrightarrow> sum_bind x f = sum_bind y f"
  by simp

lemma sum_bind_simps: "sum_bind (Inl e) f = Inl e" "sum_bind (Inr a) f = f a"
  by (simp_all add: sum_bind_def)

lemma fst_sndI: "fst x = a \<Longrightarrow> x = (a, snd x)"
  by (cases x) simp

lemmas weak_congs = if_weak_cong option.case_cong_weak sum.case_cong_weak prod.case_cong_weak
  list.case_cong_weak bind_weak_cong sum_bind_weak_cong

lemmas text_defs = isdigit_def isspace_def isalnum_def str_isalnum_def lower_char_def
  rstrip_def strip_def startswith_def

lemmas date_defs = digit_val_def digits_val_def lower_def a_weekday_def a_month_def
  match_name_def match_ws_def match_char_def match_digits_def ok_d_def ok_Y_def ok_H_def
  ok_M_def ok_S_def is_leap_def days_in_month_def valid_datetime_def strptime_str_def

lemma io_bind_apply:
  "io_bind m f w = (case m w of (Inl e, w') \<Rightarrow> (Inl e, w') | (Inr a, w') \<Rightarrow> f a w')"
  by (simp add: io_bind_def)

lemma io_bind_weak_cong: "m = m' \<Longrightarrow> io_bind m f = io_bind m' f"
  by simp

lemmas py_defs = safe_filename_def attrs_dict_def xmltodict_parse_def sum_bind_simps
  int_digits_ok_def py_int_def int_space_def

lemmas path_defs = Path_def joinpath_def as_posix_def parent_def

lemmas db_defs = new_database_def next_rowid_def has_columns_def ingest_columns_def
  feedcli_columns_def insert_raw_feed_def upsert_feed_def metadata_params_def blank_item_def
  upsert_feed_item_def select_download_path_def update_download_path_def

lemmas io_defs = io_return_def io_raise_def io_bind_apply io_lift_def io_sql_def log_def
  time_time_def is_dir_def is_file_def path_exists_def os_mkdir_def mkdir_def
  mkdir_parents.simps open_read_def open_wb_def file_write_def requests_get_def header_def
  get_feed_xml_def log_progress_def download_def item_head_def item_dir_def item_args_def
  resolve_item_file_def reconcile_item_def process_item_def open_feed_def
  process_one_feed_def commit_def rollback_def get_database_def process_line_def main_def
  isoformat_def strftime_Ymd_def unpadded4_def pad2_def pad4_def digit_char_def

lemmas example_defs = example_world_def episode_def example_feed_def ep1_def ep2_def
  feed_response_def mp3_response_def one_item_world_def two_item_world_def

section \<open>Skip if present\<close>

lemma quiet_refl: "quiet w w"
  by (simp add: quiet_def)

lemma quiet_trans: "quiet a b \<Longrightarrow> quiet b c \<Longrightarrow> quiet a c"
  by (simp add: quiet_def)

lemmas quiet_bind = io_inv_bind [of quiet, OF quiet_trans]

lemmas quiet_pure = io_inv_pure [of quiet, OF quiet_refl]

lemma quiet_sql: "io_inv quiet (io_sql f)"
  by (auto simp: io_inv_def io_sql_def quiet_def split: sum.splits)

lemma quiet_sql_now: "io_inv quiet (\<lambda>w. io_sql (f (current_timestamp w)) w)"
  by (auto simp: io_inv_def io_sql_def quiet_def split: sum.splits)

lemma quiet_mkdir: "io_inv quiet (mkdir e p)"
  by (auto simp: io_inv_def mkdir_def os_mkdir_def quiet_def)

lemma quiet_item_dir: "io_inv quiet (item_dir feed_dir item)"
  unfolding item_dir_def
  by (auto intro!: quiet_bind quiet_pure quiet_mkdir)

lemma quiet_reconcile_item: "io_inv quiet (reconcile_item fid feed_dir item)"
  unfolding reconcile_item_def
  by (intro quiet_bind quiet_pure quiet_item_dir quiet_sql_now quiet_sql)

lemma process_items_append:
  "process_items fid d (xs @ ys) w =
     (case process_items fid d xs w of
        (Inl e, w') \<Rightarrow> (Inl e, w')
      | (Inr u, w') \<Rightarrow> process_items fid d ys w')"
proof (induction xs arbitrary: w)
  case Nil
  show ?case by (simp add: io_return_def)
next
  case (Cons x xs)
  show ?case
    by (cases "process_item fid d x w") (auto simp: io_bind_def Cons.IH split: sum.splits)
qed

lemma process_item_skip:
  "reconcile_item fid d item w = (Inr rc, w1) \<Longrightarrow> path_exists w1 (rc_file rc) \<Longrightarrow>
   process_item fid d item w = (Inr (), w1)"
  by (simp add: process_item_def io_bind_def io_return_def)

lemma process_item_download:
  "reconcile_item fid d item w = (Inr rc, w1) \<Longrightarrow> \<not> path_exists w1 (rc_file rc) \<Longrightarrow>
   process_item fid d item w = download (rc_file rc) (rc_url rc) (rc_id rc) w1"
  by (simp add: process_item_def io_bind_def)

lemma process_item_fail:
  "reconcile_item fid d item w = (Inl e, w1) \<Longrightarrow> process_item fid d item w = (Inl e, w1)"
  by (simp add: process_item_def io_bind_def)

lemma step_exists: "step w w' \<Longrightarrow> path_exists w p \<Longrightarrow> path_exists w' p"
  by (simp add: step_def)

text \<open>
  C8.  Take a pass over a feed that begins in the world \<open>w0\<close>: the feed is opened, the
  items before some item are processed without error, and that item is reconciled, which
  resolves the path of its file (the stored path, or the canonical path when none is
  stored).  If something existed at that path when the pass began, the processing of
  the item ends there: \<open>download\<close> is not called, so nothing is requested, no file is
  written, no line is logged and the clock is not read, and the pass goes on with the
  next item.
\<close>

theorem skip_if_present:
  assumes opened: "open_feed url w0 = (Inr f, wa)"
    and items: "of_items f = pre @ item # post"
    and before: "process_items (of_id f) (of_dir f) pre wa = (Inr (), w)"
    and rec: "reconcile_item (of_id f) (of_dir f) item w = (Inr rc, w1)"
    and present: "path_exists w0 (rc_file rc)"
  shows "process_item (of_id f) (of_dir f) item w = (Inr (), w1)
    \<and> files w1 = files w \<and> stderr w1 = stderr w \<and> timer_calls w1 = timer_calls w
    \<and> process_one_feed url w0 = process_items (of_id f) (of_dir f) post w1"
proof -
  have "step w0 wa" by (rule io_invD [OF step_open_feed opened])
  moreover have "step wa w" by (rule io_invD [OF step_process_items before])
  moreover have "step w w1" by (rule io_invD [OF step_reconcile_item rec])
  ultimately have "path_exists w1 (rc_file rc)"
    using present by (blast intro: step_exists)
  then have skip: "process_item (of_id f) (of_dir f) item w = (Inr (), w1)"
    by (rule process_item_skip [OF rec])
  have q: "quiet w w1" by (rule io_invD [OF quiet_reconcile_item rec])
  have "process_one_feed url w0 = process_items (of_id f) (of_dir f) (pre @ item # post) wa"
    using opened items by (simp add: process_one_feed_def io_bind_def)
  also have "\<dots> = process_items (of_id f) (of_dir f) (item # post) w"
    using before by (simp add: process_items_append)
  also have "\<dots> = process_items (of_id f) (of_dir f) post w1"
    using skip by (simp add: io_bind_def)
  finally show ?thesis
    using skip q by (simp add: quiet_def)
qed

lemma resumed_world_opened:
  "fst (open_feed ''http://example.com/feed.xml'' (get_database resumed_world))
   = Inr \<lparr>of_id = 1, of_dir = Path ''Example Show'',
          of_items = [] @ element_value ep1 # [element_value ep2]\<rparr>"
  by (simp add: io_defs db_defs path_defs py_defs example_defs text_defs resumed_world_def
      Let_def cong: weak_congs io_bind_weak_cong)

lemma resumed_world_reconciled:
  "fst (reconcile_item 1 (Path ''Example Show'') (element_value ep1)
         (snd (open_feed ''http://example.com/feed.xml'' (get_database resumed_world))))
   = Inr \<lparr>rc_url = PStr ''http://example.com/ep1.mp3'', rc_id = 1, rc_stored = None,
          rc_file = Path ''Example Show/2023-01-02 Ep 1.mp3''\<rparr>"
  by (simp add: io_defs db_defs path_defs py_defs example_defs text_defs date_defs
      resumed_world_def Let_def cong: weak_congs io_bind_weak_cong)

lemma resumed_world_present:
  "path_exists (get_database resumed_world) (Path ''Example Show/2023-01-02 Ep 1.mp3'')"
  by (simp add: get_database_def resumed_world_def example_defs path_exists_def is_file_def
      is_dir_def)

theorem skip_if_present_witness:
  "path_exists (get_database resumed_world) (Path ''Example Show/2023-01-02 Ep 1.mp3'')
   \<and> process_item 1 (Path ''Example Show'') (element_value ep1)
        (snd (open_feed ''http://example.com/feed.xml'' (get_database resumed_world)))
     = (Inr (), snd (reconcile_item 1 (Path ''Example Show'') (element_value ep1)
         (snd (open_feed ''http://example.com/feed.xml'' (get_database resumed_world)))))
   \<and> files (snd (reconcile_item 1 (Path ''Example Show'') (element_value ep1)
         (snd (open_feed ''http://example.com/feed.xml'' (get_database resumed_world)))))
     = files (snd (open_feed ''http://example.com/feed.xml'' (get_database resumed_world)))
   \<and> process_one_feed ''http://example.com/feed.xml'' (get_database resumed_world)
     = process_items 1 (Path ''Example Show'') [element_value ep2]
        (snd (reconcile_item 1 (Path ''Example Show'') (element_value ep1)
         (snd (open_feed ''http://example.com/feed.xml'' (get_database resumed_world)))))"
proof -
  let ?w0 = "get_database resumed_world"
  let ?f = "\<lparr>of_id = 1, of_dir = Path ''Example Show'',
          of_items = [] @ element_value ep1 # [element_value ep2]\<rparr>"
  let ?wa = "snd (open_feed ''http://example.com/feed.xml'' ?w0)"
  let ?rc = "\<lparr>rc_url = PStr ''http://example.com/ep1.mp3'', rc_id = 1, rc_stored = None,
          rc_file = Path ''Example Show/2023-01-02 Ep 1.mp3''\<rparr>"
  let ?w1 = "snd (reconcile_item 1 (Path ''Example Show'') (element_value ep1) ?wa)"
  have opened: "open_feed ''http://example.com/feed.xml'' ?w0 = (Inr ?f, ?wa)"
    by (rule fst_sndI [OF resumed_world_opened])
  have items: "of_items ?f = [] @ element_value ep1 # [element_value ep2]"
    by simp
  have before: "process_items (of_id ?f) (of_dir ?f) [] ?wa = (Inr (), ?wa)"
    by (simp add: io_return_def)
  have "reconcile_item 1 (Path ''Example Show'') (element_value ep1) ?wa = (Inr ?rc, ?w1)"
    by (rule fst_sndI [OF resumed_world_reconciled])
  then have rec: "reconcile_item (of_id ?f) (of_dir ?f) (element_value ep1) ?wa
      = (Inr ?rc, ?w1)"
    by simp
  have present: "path_exists ?w0 (rc_file ?rc)"
    using resumed_world_present by simp
  from skip_if_present [OF opened items before rec present] resumed_world_present
  show ?thesis
    by simp
qed

section \<open>A date that does not parse\<close>

lemma bad_date_item_head: "bad_date tzs item \<Longrightarrow> isl (item_head tzs item)"
  by (auto simp: bad_date_def item_head_def sum_bind_def split: sum.splits pyval.splits)

lemma reconcile_item_bad_head:
  "isl (item_head (tznames w) item) \<Longrightarrow>
   \<exists>e. reconcile_item fid d item w = (Inl e, w)"
  by (cases "item_head (tznames w) item") (auto simp: reconcile_item_def io_bind_def)

lemma step_tznames: "step w w' \<Longrightarrow> tznames w' = tznames w"
  by (simp add: step_def)

lemma process_items_bad_date:
  assumes "bad_date (tznames w) item"
  shows "\<exists>e w'. process_items fid d (pre @ item # post) w = (Inl e, w')
    \<and> process_items fid d (pre @ [item]) w = (Inl e, w')"
proof (cases "process_items fid d pre w")
  case (Pair r w1)
  show ?thesis
  proof (cases r)
    case (Inl e)
    with Pair show ?thesis by (simp add: process_items_append)
  next
    case (Inr u)
    have "tznames w1 = tznames w"
      by (rule step_tznames [OF io_invD [OF step_process_items Pair]])
    with assms have "isl (item_head (tznames w1) item)"
      by (simp add: bad_date_item_head)
    from reconcile_item_bad_head [OF this] obtain e
      where "reconcile_item fid d item w1 = (Inl e, w1)" by blast
    then have "process_item fid d item w1 = (Inl e, w1)"
      by (rule process_item_fail)
    with Pair Inr show ?thesis
      by (simp add: process_items_append io_bind_def)
  qed
qed

lemma process_line_failed:
  assumes "feed_line raw" and "process_one_feed (strip raw) w = (Inl e, w')"
    and "db_file w = Some d"
  shows "con (process_line raw w) = d \<and> db_file (process_line raw w) = Some d"
proof -
  have "step w w'" by (rule io_invD [OF step_process_one_feed assms(2)])
  then have "db_file w' = Some d" using assms(3) by (simp add: step_def)
  with assms(1,2) show ?thesis
    by (simp add: process_line_def feed_line_def Let_def rollback_def)
qed

text \<open>
  C3, as the code has it.  When a feed holds an item whose \<open>pubDate\<close> text does not
  match the format, processing the feed fails as a whole: \<open>process_one_feed\<close> raises (at
  that item, unless an earlier step has failed already), the items after it are never
  looked at (the run is the run over the items up to and including it), and \<open>main\<close>
  rolls the connection back, so that the database holds what the file held before the
  feed: neither the feed nor any of its items, not even those before the bad one.
\<close>

theorem unparseable_date_aborts_feed:
  assumes line: "feed_line raw"
    and opened: "open_feed (strip raw) w0 = (Inr f, wa)"
    and items: "of_items f = pre @ item # post"
    and bad: "bad_date (tznames w0) item"
    and dbf: "db_file w0 = Some d"
  shows "\<exists>e w'. process_one_feed (strip raw) w0 = (Inl e, w')
    \<and> process_items (of_id f) (of_dir f) (pre @ [item]) wa = (Inl e, w')
    \<and> con (process_line raw w0) = d \<and> db_file (process_line raw w0) = Some d"
proof -
  have "tznames wa = tznames w0"
    by (rule step_tznames [OF io_invD [OF step_open_feed opened]])
  with bad have "bad_date (tznames wa) item" by simp
  from process_items_bad_date [OF this, of "of_id f" "of_dir f" pre post]
  obtain e w' where a: "process_items (of_id f) (of_dir f) (pre @ item # post) wa = (Inl e, w')"
    and b: "process_items (of_id f) (of_dir f) (pre @ [item]) wa = (Inl e, w')"
    by blast
  have c: "process_one_feed (strip raw) w0 = (Inl e, w')"
    using opened items a by (simp add: process_one_feed_def io_bind_def)
  from process_line_failed [OF line c dbf] b c show ?thesis by blast
qed


lemma bad_date_world_opened:
  "fst (open_feed ''http://example.com/feed.xml'' (get_database bad_date_world))
   = Inr \<lparr>of_id = 1, of_dir = Path ''Example Show'',
          of_items = [] @ element_value (episode ''Ep 1'' ''abc123'' ''2023-01-02 10:00:00''
                           ''http://example.com/ep1.mp3'') # [element_value ep2]\<rparr>"
  by (simp add: io_defs db_defs path_defs py_defs example_defs text_defs bad_date_world_def
      Let_def cong: weak_congs io_bind_weak_cong)

lemma bad_date_world_run:
  "fst (process_one_feed ''http://example.com/feed.xml'' (get_database bad_date_world))
     = Inl ValueError"
  by (simp add: io_defs db_defs path_defs py_defs example_defs text_defs date_defs
      bad_date_world_def Let_def cong: weak_congs io_bind_weak_cong)

lemma bad_date_world_files:
  "files (snd (process_one_feed ''http://example.com/feed.xml''
        (get_database bad_date_world))) = Map.empty"
  by (simp add: io_defs db_defs path_defs py_defs example_defs text_defs date_defs
      bad_date_world_def Let_def cong: weak_congs io_bind_weak_cong)


lemma feed_url_line:
  "strip ''http://example.com/feed.xml'' = ''http://example.com/feed.xml''"
  "feed_line ''http://example.com/feed.xml''"
  by (simp_all add: feed_line_def text_defs)

lemma bad_date_world_db_file:
  "db_file (get_database bad_date_world) = Some (new_database ingest_columns)"
  by (simp add: get_database_def bad_date_world_def example_world_def)

text \<open>
  C3 as the specification has it fails on a feed of two items of which the first has the
  date \<^verbatim>\<open>2023-01-02 10:00:00\<close>: the feed fails with \<open>ValueError\<close>, the second item is
  neither reconciled nor downloaded (no file is written), and after \<open>main\<close> the database
  is the empty one: it holds neither the feed nor an episode.
\<close>

theorem unparseable_date_counterexample:
  "fst (process_one_feed ''http://example.com/feed.xml'' (get_database bad_date_world))
     = Inl ValueError
   \<and> db_file (main [''http://example.com/feed.xml''] bad_date_world)
     = Some (new_database ingest_columns)
   \<and> feed_item (new_database ingest_columns) = []
   \<and> files (main [''http://example.com/feed.xml''] bad_date_world) = Map.empty"
proof -
  define w' where "w' = snd (process_one_feed ''http://example.com/feed.xml''
      (get_database bad_date_world))"
  have run: "process_one_feed ''http://example.com/feed.xml''
      (get_database bad_date_world) = (Inl ValueError, w')"
    unfolding w'_def by (rule fst_sndI [OF bad_date_world_run])
  have f: "files w' = Map.empty"
    unfolding w'_def by (rule bad_date_world_files)
  have s: "step (get_database bad_date_world) w'"
    by (rule io_invD [OF step_process_one_feed run])
  have d: "db_file w' = Some (new_database ingest_columns)"
    using s bad_date_world_db_file by (simp add: step_def)
  have "main [''http://example.com/feed.xml''] bad_date_world
      = commit (rollback (w'\<lparr>stderr := stderr w' @ [ErrorProcessing ''http://example.com/feed.xml'']\<rparr>))"
    using run feed_url_line by (simp add: main_def process_line_def feed_line_def)
  then show ?thesis
    using d f bad_date_world_run by (simp add: commit_def rollback_def new_database_def)
qed

theorem unparseable_date_aborts_feed_witness:
  "feed_line ''http://example.com/feed.xml''
   \<and> bad_date (tznames (get_database bad_date_world))
      (element_value (episode ''Ep 1'' ''abc123'' ''2023-01-02 10:00:00''
                           ''http://example.com/ep1.mp3''))
   \<and> (\<exists>e w'. process_one_feed ''http://example.com/feed.xml'' (get_database bad_date_world)
       = (Inl e, w'))
   \<and> con (process_line ''http://example.com/feed.xml'' (get_database bad_date_world))
       = new_database ingest_columns
   \<and> db_file (process_line ''http://example.com/feed.xml'' (get_database bad_date_world))
       = Some (new_database ingest_columns)"
proof -
  have opened: "open_feed (strip ''http://example.com/feed.xml'')
      (get_database bad_date_world)
    = (Inr \<lparr>of_id = 1, of_dir = Path ''Example Show'',
          of_items = [] @ element_value (episode ''Ep 1'' ''abc123'' ''2023-01-02 10:00:00''
                           ''http://example.com/ep1.mp3'') # [element_value ep2]\<rparr>,
       snd (open_feed ''http://example.com/feed.xml'' (get_database bad_date_world)))"
    unfolding feed_url_line by (rule fst_sndI [OF bad_date_world_opened])
  have bad: "bad_date (tznames (get_database bad_date_world))
      (element_value (episode ''Ep 1'' ''abc123'' ''2023-01-02 10:00:00''
                           ''http://example.com/ep1.mp3''))"
    by (simp add: bad_date_def episode_def attrs_dict_def text_defs date_defs
        cong: weak_congs)
  have items: "of_items \<lparr>of_id = 1, of_dir = Path ''Example Show'',
          of_items = [] @ element_value (episode ''Ep 1'' ''abc123'' ''2023-01-02 10:00:00''
                           ''http://example.com/ep1.mp3'') # [element_value ep2]\<rparr>
     = [] @ element_value (episode ''Ep 1'' ''abc123'' ''2023-01-02 10:00:00''
                           ''http://example.com/ep1.mp3'') # [element_value ep2]"
    by simp
  from unparseable_date_aborts_feed [OF feed_url_line(2) opened items bad
      bad_date_world_db_file]
  show ?thesis
    unfolding feed_url_line using bad feed_url_line(2) by blast
qed

section \<open>A feed of one item\<close>

lemma one_item_world_run:
  "(case process_one_feed ''http://example.com/feed.xml'' (get_database one_item_world) of
      (r, w') \<Rightarrow> (r, files w', feed_item (con w')))
   = (Inl TypeError, Map.empty, [])"
  by (simp add: io_defs db_defs path_defs py_defs example_defs text_defs date_defs
      Let_def cong: weak_congs io_bind_weak_cong)

text \<open>
  C1.  The feed of the scenario, with its one item, is not ingested: \<open>xmltodict\<close> gives
  the single \<open>item\<close> element as a dictionary, not as a list of one dictionary, the loop
  of \<open>process_one_feed\<close> runs over the keys of that dictionary, and \<^verbatim>\<open>item["title"]\<close> on
  a key raises \<open>TypeError\<close>.  \<open>main\<close> rolls back: the database holds no feed and no
  episode, and no file has been written.
\<close>

theorem single_item_feed_fails:
  "fst (process_one_feed ''http://example.com/feed.xml'' (get_database one_item_world))
     = Inl TypeError
   \<and> db_file (main [''http://example.com/feed.xml''] one_item_world)
     = Some (new_database ingest_columns)
   \<and> feed (new_database ingest_columns) = []
   \<and> feed_item (new_database ingest_columns) = []
   \<and> files (main [''http://example.com/feed.xml''] one_item_world) = Map.empty"
proof -
  define w' where "w' = snd (process_one_feed ''http://example.com/feed.xml''
      (get_database one_item_world))"
  have run: "process_one_feed ''http://example.com/feed.xml''
      (get_database one_item_world) = (Inl TypeError, w')"
    and f: "files w' = Map.empty"
    using one_item_world_run unfolding w'_def by (simp_all split: prod.splits)
  have s: "step (get_database one_item_world) w'"
    by (rule io_invD [OF step_process_one_feed run])
  have "db_file (get_database one_item_world) = Some (new_database ingest_columns)"
    by (simp add: get_database_def one_item_world_def example_world_def)
  with s have d: "db_file w' = Some (new_database ingest_columns)"
    by (simp add: step_def)
  have "main [''http://example.com/feed.xml''] one_item_world
      = commit (rollback (w'\<lparr>stderr := stderr w' @ [ErrorProcessing ''http://example.com/feed.xml'']\<rparr>))"
    using run feed_url_line by (simp add: main_def process_line_def feed_line_def)
  then show ?thesis
    using d f run by (simp add: commit_def rollback_def new_database_def)
qed

section \<open>An enclosure that is not served\<close>

lemma status_world_run:
  "(case process_one_feed ''http://example.com/feed.xml'' (get_database (status_world s)) of
      (r, w') \<Rightarrow> (r, stored_path (con w') 1 ''abc123'', stored_path (con w') 1 ''def456'',
         files w' (Path ''Example Show/2023-01-02 Ep 1.mp3''),
         files w' (Path ''Example Show/2023-01-09 Ep 2.mp3'')))
   = (Inr (), Some ''Example Show/2023-01-02 Ep 1.mp3'',
      Some ''Example Show/2023-01-09 Ep 2.mp3'',
      Some (replicate 100 (CHR 0x00)), Some ''Not Found'')"
  by (simp add: io_defs db_defs path_defs py_defs example_defs text_defs date_defs
      status_world_def error_response_def stored_path_def is_pair_def
      Let_def cong: weak_congs io_bind_weak_cong)


text \<open>
  C2.  The status of the response to the enclosure request is never looked at.  Whatever
  the status \<open>s\<close> is (404, say), the body of the response is written to the file of the
  episode, the download does not fail, the path is recorded as the \<open>download_path\<close> of
  the episode, and \<open>main\<close> commits it.
\<close>

theorem enclosure_status_ignored:
  "fst (process_one_feed ''http://example.com/feed.xml'' (get_database (status_world s)))
     = Inr ()
   \<and> db_file (main [''http://example.com/feed.xml''] (status_world s))
     = Some (con (main [''http://example.com/feed.xml''] (status_world s)))
   \<and> stored_path (con (main [''http://example.com/feed.xml''] (status_world s))) 1 ''def456''
     = Some ''Example Show/2023-01-09 Ep 2.mp3''
   \<and> files (main [''http://example.com/feed.xml''] (status_world s))
       (Path ''Example Show/2023-01-09 Ep 2.mp3'') = Some ''Not Found''"
proof -
  define w' where "w' = snd (process_one_feed ''http://example.com/feed.xml''
      (get_database (status_world s)))"
  have run: "process_one_feed ''http://example.com/feed.xml''
      (get_database (status_world s)) = (Inr (), w')"
    and p: "stored_path (con w') 1 ''def456'' = Some ''Example Show/2023-01-09 Ep 2.mp3''"
    and f: "files w' (Path ''Example Show/2023-01-09 Ep 2.mp3'') = Some ''Not Found''"
    using status_world_run [of s] unfolding w'_def by (simp_all split: prod.splits)
  have "main [''http://example.com/feed.xml''] (status_world s) = commit (commit w')"
    using run feed_url_line by (simp add: main_def process_line_def feed_line_def)
  then show ?thesis
    using p f run by (simp add: commit_def)
qed

section \<open>A skip writes no path\<close>




section \<open>A batch with an unreachable feed\<close>












end
